theory Spec2Isabelle
  imports Main "HOL-Library.Log_Nat"
begin

section \<open>Python numbers\<close>

subsection \<open>Binary64 rounding\<close>

text \<open>
  A Python \<open>float\<close> is an IEEE 754 binary64 number.  A finite one is modelled by the
  rational it denotes, and every arithmetic operation rounds its exact result to the
  nearest binary64 number, ties to the even significand: \<open>fl\<close>.  The spacing of the
  binary64 numbers around \<open>x\<close> is \<open>ulp x\<close>: 53 significant bits, and the fixed spacing
  \<open>2 powi (- 1074)\<close> below the least normal number \<open>2 powi (- 1022)\<close>.  \<open>fl\<close> itself has
  no largest number; \<open>to_binary64\<close> below adds the overflow to an infinity, at
  \<open>2 powi 1024\<close>.

  \<open>rne\<close> is round-half-to-even to an integer; it is also what Python's one-argument
  \<open>round\<close> does to a float.
\<close>

definition rne :: "rat \<Rightarrow> int" where
  "rne x = (let f = \<lfloor>x\<rfloor>; d = x - of_int f in
            if d < 1 / 2 then f else if 1 / 2 < d then f + 1
            else if even f then f else f + 1)"

text \<open>\<open>ilog2 x\<close> is the binary exponent of \<open>x \<noteq> 0\<close>: \<open>2 powi ilog2 x \<le> \<bar>x\<bar> < 2 powi (ilog2 x + 1)\<close>.\<close>

definition ilog2 :: "rat \<Rightarrow> int" where
  "ilog2 x = (case quotient_of \<bar>x\<bar> of (p, q) \<Rightarrow>
               let d = bitlen p - bitlen q in
               if power_int 2 d \<le> \<bar>x\<bar> then d else d - 1)"

definition ulp :: "rat \<Rightarrow> rat" where
  "ulp x = power_int 2 (max (ilog2 x) (- 1022) - 52)"

definition fl :: "rat \<Rightarrow> rat" where
  "fl x = (if x = 0 then 0 else of_int (rne (x / ulp x)) * ulp x)"

definition is_double :: "rat \<Rightarrow> bool" where
  "is_double x \<longleftrightarrow> fl x = x"

subsection \<open>Exceptions\<close>

text \<open>
  Whatever a piece of arithmetic, a call into the document database or a remote service
  raises is an \<open>error\<close> carrying the text of the exception.  A result is \<open>Inl\<close> of it, or
  \<open>Inr\<close> of the value; \<open>and_then\<close> runs the next step unless the first one raised.
\<close>

datatype error = Error string

definition and_then :: "error + 'a \<Rightarrow> ('a \<Rightarrow> error + 'b) \<Rightarrow> error + 'b" where
  "and_then r f = (case r of Inl e \<Rightarrow> Inl e | Inr x \<Rightarrow> f x)"

subsection \<open>Floats with their infinities\<close>

text \<open>
  A float is finite, an infinity (\<open>Inf True\<close> is \<open>inf\<close>, \<open>Inf False\<close> is \<open>-inf\<close>) or not a
  number.  \<open>to_binary64\<close> rounds an exact result: a rounded magnitude of \<open>2 powi 1024\<close> or
  more is beyond the largest float and becomes an infinity.
\<close>

datatype pyfloat = Fin rat | Inf bool | NaN

definition to_binary64 :: "rat \<Rightarrow> pyfloat" where
  "to_binary64 x =
     (let r = fl x
      in if 2 powi 1024 \<le> r then Inf True
         else if r \<le> - (2 powi 1024) then Inf False
         else Fin r)"

text \<open>
  \<open>a / b\<close> on two ints is the correctly rounded quotient; it raises
  \<open>ZeroDivisionError\<close> on \<open>b = 0\<close> and \<open>OverflowError\<close> when the quotient is beyond the
  floats.  Converting an int to a float, as mixed arithmetic does, raises
  \<open>OverflowError\<close> likewise.
\<close>

definition int_truediv :: "int \<Rightarrow> int \<Rightarrow> error + rat" where
  "int_truediv a b =
     (if b = 0 then Inl (Error ''division by zero'')
      else case to_binary64 (of_int a / of_int b) of
             Fin q \<Rightarrow> Inr q
           | _ \<Rightarrow> Inl (Error ''integer division result too large for a float''))"

definition int_to_float :: "int \<Rightarrow> error + rat" where
  "int_to_float n =
     (case to_binary64 (of_int n) of
        Fin x \<Rightarrow> Inr x
      | _ \<Rightarrow> Inl (Error ''int too large to convert to float''))"

text \<open>\<open>x + y\<close> on two floats: an overflow gives an infinity and raises nothing.\<close>

fun float_add :: "pyfloat \<Rightarrow> pyfloat \<Rightarrow> pyfloat" where
  "float_add (Fin x) (Fin y) = to_binary64 (x + y)"
| "float_add NaN y = NaN"
| "float_add x NaN = NaN"
| "float_add (Inf a) (Inf b) = (if a = b then Inf a else NaN)"
| "float_add (Inf a) (Fin y) = Inf a"
| "float_add (Fin x) (Inf b) = Inf b"

text \<open>\<open>x / n\<close> for a finite float \<open>x\<close> and an int \<open>n\<close>.\<close>

definition float_div_int :: "rat \<Rightarrow> int \<Rightarrow> error + pyfloat" where
  "float_div_int x n =
     and_then (int_to_float n)
       (\<lambda>y. if y = 0 then Inl (Error ''float division by zero'')
            else Inr (to_binary64 (x / y)))"

subsection \<open>Operations on finite floats\<close>

text \<open>
  The analytics work on percentages, floats between 0 and 100, and on their sums and
  means; there the operations are taken on finite values, without the overflow.
  \<open>x + y\<close>, \<open>x * y\<close> and \<open>x / y\<close> on floats; an \<open>int\<close> operand (a literal or the length of a
  list) is converted first (\<open>float_of_int\<close>).  A division by zero raises
  \<open>ZeroDivisionError\<close>: the result is \<open>None\<close>.
\<close>

definition float_of_int :: "int \<Rightarrow> rat" where
  "float_of_int n = fl (of_int n)"

definition fadd :: "rat \<Rightarrow> rat \<Rightarrow> rat" where
  "fadd x y = fl (x + y)"

definition fmul :: "rat \<Rightarrow> rat \<Rightarrow> rat" where
  "fmul x y = fl (x * y)"

definition fdiv :: "rat \<Rightarrow> rat \<Rightarrow> rat option" where
  "fdiv x y = (if y = 0 then None else Some (fl (x / y)))"

text \<open>
  \<open>sum(xs)\<close> over floats: start from the int \<open>0\<close> and add the items from left to right.
  (The first addition \<open>0 + x\<close> returns the float \<open>x\<close>.)  An interpreter that carries a
  correction term for the rounding errors of these additions (CPython from 3.12 on)
  returns the same float when the list has at most two items or three equal items, and
  when every partial sum is exact.
\<close>

definition py_sum :: "rat list \<Rightarrow> rat" where
  "py_sum xs = foldl fadd 0 xs"

text \<open>\<open>sum(xs) / len(xs)\<close>, with the \<open>ZeroDivisionError\<close> of an empty list.\<close>

definition mean :: "rat list \<Rightarrow> rat option" where
  "mean xs = fdiv (py_sum xs) (float_of_int (int (length xs)))"

text \<open>
  \<open>max(xs)\<close> and \<open>min(xs)\<close> over a non-empty list keep the first of several equal
  extremes: the running result is replaced only by a strictly greater (smaller) item.
\<close>

definition py_max :: "rat \<Rightarrow> rat list \<Rightarrow> rat" where
  "py_max x xs = foldl (\<lambda>m y. if m < y then y else m) x xs"

definition py_min :: "rat \<Rightarrow> rat list \<Rightarrow> rat" where
  "py_min x xs = foldl (\<lambda>m y. if y < m then y else m) x xs"

subsection \<open>Numbers that are an int or a float\<close>

text \<open>
  The learning score starts as the int \<open>0\<close> and becomes a float as soon as a float is
  added to it.  Int arithmetic is exact; mixed arithmetic converts the int operand,
  which can raise.  Comparisons between an int and a float compare the exact values;
  every comparison with a NaN is false.
\<close>

datatype pynum = PInt int | PFloat pyfloat

fun py_float :: "pynum \<Rightarrow> error + pyfloat" where
  "py_float (PInt n) = and_then (int_to_float n) (\<lambda>x. Inr (Fin x))"
| "py_float (PFloat f) = Inr f"

fun py_add :: "pynum \<Rightarrow> pynum \<Rightarrow> error + pynum" where
  "py_add (PInt a) (PInt b) = Inr (PInt (a + b))"
| "py_add a b =
     and_then (py_float a) (\<lambda>x. and_then (py_float b) (\<lambda>y. Inr (PFloat (float_add x y))))"

fun py_less :: "pynum \<Rightarrow> pynum \<Rightarrow> bool" where
  "py_less (PFloat NaN) b = False"
| "py_less a (PFloat NaN) = False"
| "py_less (PFloat (Inf s)) (PFloat (Inf t)) = (\<not> s \<and> t)"
| "py_less (PFloat (Inf s)) b = (\<not> s)"
| "py_less a (PFloat (Inf t)) = t"
| "py_less (PInt m) (PInt n) = (m < n)"
| "py_less (PInt m) (PFloat (Fin y)) = (of_int m < y)"
| "py_less (PFloat (Fin x)) (PInt n) = (x < of_int n)"
| "py_less (PFloat (Fin x)) (PFloat (Fin y)) = (x < y)"

text \<open>\<open>min(a, b)\<close>: \<open>b\<close> only when it is strictly smaller.\<close>

definition py_min2 :: "pynum \<Rightarrow> pynum \<Rightarrow> pynum" where
  "py_min2 a b = (if py_less b a then b else a)"

text \<open>\<open>round(x)\<close> to an int; an infinity and a NaN have none.\<close>

fun py_round :: "pynum \<Rightarrow> error + int" where
  "py_round (PInt n) = Inr n"
| "py_round (PFloat (Fin x)) = Inr (rne x)"
| "py_round (PFloat (Inf s)) = Inl (Error ''cannot convert float infinity to integer'')"
| "py_round (PFloat NaN) = Inl (Error ''cannot convert float NaN to integer'')"

text \<open>
  The exact value of a finite number, and the numbers whose value lies in a range:
  the notions in which the bounds on the score are stated.
\<close>

fun py_val :: "pynum \<Rightarrow> rat option" where
  "py_val (PInt n) = Some (of_int n)"
| "py_val (PFloat (Fin x)) = Some x"
| "py_val (PFloat (Inf s)) = None"
| "py_val (PFloat NaN) = None"

definition score_between :: "rat \<Rightarrow> rat \<Rightarrow> pynum \<Rightarrow> bool" where
  "score_between lo hi s = (case py_val s of None \<Rightarrow> False | Some v \<Rightarrow> lo \<le> v \<and> v \<le> hi)"

section \<open>Documents of the record store\<close>

text \<open>
  A calendar date is its day number (Python's \<open>date.toordinal()\<close>), so that
  \<open>d - timedelta(days=1)\<close> is \<open>d - 1\<close>.  A stored timestamp is a date together with
  the time elapsed within that day; \<open>.date()\<close> forgets the second part.  The day numbers
  of real timestamps are far from both ends of Python's date range, so the range check
  of \<open>date - timedelta\<close> is not modelled.
\<close>

type_synonym date = int

record timestamp =
  ts_date :: date
  ts_nanos :: nat

text \<open>
  A query of the document database is \<open>Inl\<close> of the exception it raised, or \<open>Inr\<close> of the
  documents it streams, in the order of the query.
\<close>

text \<open>
  A document of \<open>users/<id>/quiz_scores\<close>, as \<open>to_dict()\<close> returns it.  A field is
  \<open>None\<close> when the key is missing (for \<open>completed_at\<close>: missing or null, which the code
  treats alike).  \<open>percentage\<close> is a float.
\<close>

record quiz_doc =
  topic :: "string option"
  score :: "int option"
  total_questions :: "int option"
  percentage :: "rat option"
  completed_at :: "timestamp option"

text \<open>\<open>q.get('topic', 'Unknown')\<close> and \<open>q.get('percentage', 0)\<close>.\<close>

definition get_topic :: "quiz_doc \<Rightarrow> string" where
  "get_topic q = (case topic q of None \<Rightarrow> ''Unknown'' | Some t \<Rightarrow> t)"

definition get_percentage :: "quiz_doc \<Rightarrow> rat" where
  "get_percentage q = (case percentage q of None \<Rightarrow> 0 | Some p \<Rightarrow> p)"

text \<open>
  \<open>save_quiz_score\<close>: the document it writes, stamped by the server with \<open>now\<close>, or
  \<open>None\<close> when building it raises (\<open>total_questions = 0\<close>, or a quotient beyond the
  floats) and the function reports \<open>False\<close> without writing.  The percentage is
  \<open>(score / total_questions) * 100\<close>.
\<close>

definition quiz_percentage :: "int \<Rightarrow> int \<Rightarrow> rat option" where
  "quiz_percentage sc tq =
     (case int_truediv sc tq of
        Inl e \<Rightarrow> None
      | Inr r \<Rightarrow> Some (fmul r (float_of_int 100)))"

definition save_quiz_score :: "timestamp \<Rightarrow> string \<Rightarrow> int \<Rightarrow> int \<Rightarrow> quiz_doc option" where
  "save_quiz_score now tp sc tq =
     map_option (\<lambda>p. \<lparr>topic = Some tp, score = Some sc, total_questions = Some tq,
                       percentage = Some p, completed_at = Some now\<rparr>)
       (quiz_percentage sc tq)"

section \<open>Analytics over the quiz history\<close>

subsection \<open>\<open>get_user_analytics\<close>\<close>

text \<open>
  \<open>topic_scores[t].append(p)\<close> on a \<open>defaultdict(list)\<close>.  A dict is an association list in
  insertion order: a new key goes to the end, an existing key keeps its place.
\<close>

fun append_score :: "(string \<times> rat list) list \<Rightarrow> string \<Rightarrow> rat \<Rightarrow> (string \<times> rat list) list" where
  "append_score [] t p = [(t, [p])]"
| "append_score ((k, v) # d) t p =
     (if k = t then (k, v @ [p]) # d else (k, v) # append_score d t p)"

definition topic_scores :: "quiz_doc list \<Rightarrow> (string \<times> rat list) list" where
  "topic_scores quiz_list =
     foldl (\<lambda>d quiz. append_score d (get_topic quiz) (get_percentage quiz)) [] quiz_list"

text \<open>
  \<open>{topic: sum(scores)/len(scores) for topic, scores in topic_scores.items()}\<close>; \<open>None\<close>
  when a division raises.
\<close>

fun topic_averages :: "(string \<times> rat list) list \<Rightarrow> (string \<times> rat) list option" where
  "topic_averages [] = Some []"
| "topic_averages ((t, scs) # d) =
     (case mean scs of None \<Rightarrow> None
      | Some a \<Rightarrow> (case topic_averages d of None \<Rightarrow> None | Some r \<Rightarrow> Some ((t, a) # r)))"

text \<open>
  \<open>max(d, key=d.get)\<close> and \<open>min(d, key=d.get)\<close> walk the keys in insertion order and keep
  the first key of extreme value; the code guards the empty dict with \<open>None\<close>.
\<close>

fun max_key_from :: "string \<times> rat \<Rightarrow> (string \<times> rat) list \<Rightarrow> string" where
  "max_key_from (k, v) [] = k"
| "max_key_from (k, v) ((k', v') # d) =
     (if v < v' then max_key_from (k', v') d else max_key_from (k, v) d)"

fun min_key_from :: "string \<times> rat \<Rightarrow> (string \<times> rat) list \<Rightarrow> string" where
  "min_key_from (k, v) [] = k"
| "min_key_from (k, v) ((k', v') # d) =
     (if v' < v then min_key_from (k', v') d else min_key_from (k, v) d)"

fun max_key :: "(string \<times> rat) list \<Rightarrow> string option" where
  "max_key [] = None"
| "max_key (kv # d) = Some (max_key_from kv d)"

fun min_key :: "(string \<times> rat) list \<Rightarrow> string option" where
  "min_key [] = None"
| "min_key (kv # d) = Some (min_key_from kv d)"

text \<open>
  The dict \<open>analytics_data\<close>.  \<open>topics_studied\<close> is the list of a Python set, whose order
  is not specified: it is kept as a set.
\<close>

record analytics =
  total_quizzes :: nat
  average_score :: rat
  topics_studied :: "string set"
  quiz_history :: "quiz_doc list"
  best_topic :: "string option"
  worst_topic :: "string option"
  current_streak :: nat

text \<open>
  \<open>get_user_analytics\<close> on the outcome of the query
  \<open>quiz_scores.order_by('completed_at', DESCENDING).stream()\<close>.  Any exception, from the
  store or from the arithmetic, ends in the handler, which returns \<open>None\<close>.
\<close>

definition get_user_analytics :: "error + quiz_doc list \<Rightarrow> analytics option" where
  "get_user_analytics fetched =
     (case fetched of
        Inl e \<Rightarrow> None
      | Inr quiz_list \<Rightarrow>
          let analytics_data =
                \<lparr>total_quizzes = 0, average_score = 0,
                 topics_studied = set (map get_topic quiz_list),
                 quiz_history = [], best_topic = None, worst_topic = None,
                 current_streak = 0\<rparr>
          in if quiz_list = [] then Some analytics_data
             else (case mean (map get_percentage quiz_list) of
                     None \<Rightarrow> None
                   | Some avg \<Rightarrow>
                       (case topic_averages (topic_scores quiz_list) of
                          None \<Rightarrow> None
                        | Some avgs \<Rightarrow>
                            Some (analytics_data
                                   \<lparr>total_quizzes := length quiz_list,
                                    average_score := avg,
                                    quiz_history := quiz_list,
                                    best_topic := max_key avgs,
                                    worst_topic := min_key avgs\<rparr>))))"

subsection \<open>\<open>get_learning_streak\<close>\<close>

text \<open>
  The first loop: the dates of the streamed documents, each once, in the order met.
\<close>

fun collect_dates :: "date list \<Rightarrow> quiz_doc list \<Rightarrow> date list" where
  "collect_dates quiz_dates [] = quiz_dates"
| "collect_dates quiz_dates (q # qs) =
     (case completed_at q of
        None \<Rightarrow> collect_dates quiz_dates qs
      | Some ts \<Rightarrow>
          if ts_date ts \<in> set quiz_dates then collect_dates quiz_dates qs
          else collect_dates (quiz_dates @ [ts_date ts]) qs)"

text \<open>
  The second loop, with its \<open>break\<close>: the state is the streak counted so far
  (\<open>current_streak\<close>) and \<open>expected_date\<close>.
\<close>

fun streak_loop :: "nat \<Rightarrow> date \<Rightarrow> date list \<Rightarrow> nat" where
  "streak_loop streak expected_date [] = streak"
| "streak_loop streak expected_date (quiz_date # ds) =
     (if quiz_date = expected_date \<or> quiz_date = expected_date - 1
      then streak_loop (streak + 1) (quiz_date - 1) ds
      else streak)"

text \<open>
  \<open>get_learning_streak\<close>, given today's date and the outcome of the query ordered by
  \<open>completed_at\<close>, newest first; \<open>.limit(30)\<close> keeps its first 30 documents.
  \<open>quiz_dates.sort(reverse=True)\<close> sorts the distinct dates in descending order.
\<close>

definition get_learning_streak :: "date \<Rightarrow> error + quiz_doc list \<Rightarrow> nat" where
  "get_learning_streak today fetched =
     (case fetched of
        Inl e \<Rightarrow> 0
      | Inr docs \<Rightarrow>
          let quiz_dates = collect_dates [] (take 30 docs)
          in if quiz_dates = [] then 0
             else streak_loop 0 today (rev (sort quiz_dates)))"

text \<open>
  The completion dates found in a list of documents, as a set: the notion in which the
  behaviour of the streak is stated.
\<close>

fun completion_dates :: "quiz_doc list \<Rightarrow> date set" where
  "completion_dates [] = {}"
| "completion_dates (q # qs) =
     (case completed_at q of None \<Rightarrow> {} | Some ts \<Rightarrow> {ts_date ts}) \<union> completion_dates qs"

subsection \<open>\<open>get_topic_performance\<close>\<close>

text \<open>
  The per-topic dict.  The first loop fills \<open>scores\<close> and \<open>total_quizzes\<close>; the second adds
  the three aggregates, which are \<open>0\<close> until then.
\<close>

record topic_entry =
  scores :: "rat list"
  topic_total_quizzes :: nat
  topic_average_score :: rat
  best_score :: rat
  worst_score :: rat

fun add_topic_score :: "(string \<times> rat list \<times> nat) list \<Rightarrow> string \<Rightarrow> rat \<Rightarrow> (string \<times> rat list \<times> nat) list" where
  "add_topic_score [] t p = [(t, [p], 1)]"
| "add_topic_score ((k, scs, n) # d) t p =
     (if k = t then (k, scs @ [p], n + 1) # d else (k, scs, n) # add_topic_score d t p)"

definition topic_data :: "quiz_doc list \<Rightarrow> (string \<times> rat list \<times> nat) list" where
  "topic_data docs =
     foldl (\<lambda>d sc. add_topic_score d (get_topic sc) (get_percentage sc)) [] docs"

text \<open>
  What the first loop maintains for every entry: the scores are not empty, they are
  counted by \<open>total_quizzes\<close>, and they come from the percentages \<open>S\<close> of the documents.
\<close>

definition entry_ok :: "rat set \<Rightarrow> string \<times> rat list \<times> nat \<Rightarrow> bool" where
  "entry_ok S e = (case e of (t, scs, n) \<Rightarrow> scs \<noteq> [] \<and> n = length scs \<and> set scs \<subseteq> S)"

text \<open>
  The aggregates of one topic: \<open>sum(scores) / len(scores) if scores else 0\<close>,
  \<open>max(scores) if scores else 0\<close>, \<open>min(scores) if scores else 0\<close>.
\<close>

fun topic_aggregates :: "rat list \<times> nat \<Rightarrow> topic_entry option" where
  "topic_aggregates ([], n) =
     Some \<lparr>scores = [], topic_total_quizzes = n, topic_average_score = 0,
           best_score = 0, worst_score = 0\<rparr>"
| "topic_aggregates (x # xs, n) =
     (case mean (x # xs) of
        None \<Rightarrow> None
      | Some a \<Rightarrow>
          Some \<lparr>scores = x # xs, topic_total_quizzes = n, topic_average_score = a,
                best_score = py_max x xs, worst_score = py_min x xs\<rparr>)"

fun calculate_averages :: "(string \<times> rat list \<times> nat) list \<Rightarrow> (string \<times> topic_entry) list option" where
  "calculate_averages [] = Some []"
| "calculate_averages ((t, e) # d) =
     (case topic_aggregates e of
        None \<Rightarrow> None
      | Some a \<Rightarrow> (case calculate_averages d of None \<Rightarrow> None | Some r \<Rightarrow> Some ((t, a) # r)))"

text \<open>
  \<open>get_topic_performance\<close> on the outcome of \<open>quiz_scores.stream()\<close>; the handler returns
  the empty dict.
\<close>

definition get_topic_performance :: "error + quiz_doc list \<Rightarrow> (string \<times> topic_entry) list" where
  "get_topic_performance fetched =
     (case fetched of
        Inl e \<Rightarrow> []
      | Inr docs \<Rightarrow> (case calculate_averages (topic_data docs) of None \<Rightarrow> [] | Some r \<Rightarrow> r))"

section \<open>The progress report\<close>

text \<open>
  Parsed JSON, as \<open>json.loads\<close> returns it and as a study plan is stored: a dict is an
  association list in insertion order.
\<close>

datatype json =
  JNull
| JBool bool
| JNum rat
| JStr string
| JArr "json list"
| JObj "(string \<times> json) list"

text \<open>A document of \<open>users/<id>/plans\<close>, with the document id that \<open>get_user_plans\<close> adds.\<close>

record plan_doc =
  plan_id :: string
  plan_goal :: "string option"
  plan_content :: "json option"
  plan_created_at :: "timestamp option"
  plan_completed :: "bool option"

text \<open>
  \<open>get_user_plans\<close> and \<open>get_user_quiz_history\<close> on the outcomes of their queries; both
  handlers return the empty list.  \<open>.limit(limit)\<close> keeps the first \<open>limit\<close> documents.
\<close>

definition get_user_plans :: "error + plan_doc list \<Rightarrow> plan_doc list" where
  "get_user_plans fetched = (case fetched of Inl e \<Rightarrow> [] | Inr plans \<Rightarrow> plans)"

definition get_user_quiz_history :: "error + quiz_doc list \<Rightarrow> nat \<Rightarrow> quiz_doc list" where
  "get_user_quiz_history fetched limit =
     (case fetched of Inl e \<Rightarrow> [] | Inr docs \<Rightarrow> take limit docs)"

text \<open>
  \<open>generate_analytics_pdf\<close> returns the pair \<open>(pdf_data, error)\<close>.  After its guard, the
  function lays the report out and renders it with the document library; that part is
  the parameter \<open>build_pdf\<close>, which yields the bytes of the document or the exception
  raised on the way.  The three queries are separate inputs.
\<close>

type_synonym pdf_builder =
  "analytics \<Rightarrow> quiz_doc list \<Rightarrow> plan_doc list \<Rightarrow> string \<Rightarrow> string option \<Rightarrow> error + string"

definition generate_analytics_pdf ::
  "pdf_builder \<Rightarrow> error + quiz_doc list \<Rightarrow> error + quiz_doc list \<Rightarrow> error + plan_doc list
     \<Rightarrow> string \<Rightarrow> string option \<Rightarrow> string option \<times> string option" where
  "generate_analytics_pdf build_pdf fetched_scores fetched_history fetched_plans user_name user_email =
     (let analytics = get_user_analytics fetched_scores;
          history = get_user_quiz_history fetched_history 50;
          user_plans = get_user_plans fetched_plans
      in case analytics of
           None \<Rightarrow> (None, Some ''No data available for PDF generation'')
         | Some a \<Rightarrow>
             if history = [] then (None, Some ''No data available for PDF generation'')
             else (case build_pdf a history user_plans user_name user_email of
                     Inl (Error msg) \<Rightarrow> (None, Some (''Error generating PDF: '' @ msg))
                   | Inr pdf_data \<Rightarrow> (Some pdf_data, None)))"

section \<open>Cross-platform learning insights\<close>

text \<open>
  What the two platform clients return on success: the activity dict of
  \<open>get_real_time_activity\<close> and the analytics dict of \<open>get_detailed_analytics\<close>, with the
  keys that \<open>get_user_learning_insights\<close> reads.  \<open>languages_used\<close> and \<open>categories\<close> are
  dicts; only their keys are read.
\<close>

record commit_data =
  commit_repo :: string
  commit_message :: string
  commit_date :: string
  commit_sha :: string

record github_activity =
  act_total_commits :: int
  act_active_repos :: "string list"
  act_languages_used :: "(string \<times> nat) list"
  act_recent_commits :: "commit_data list"

record udemy_analytics =
  an_completion_rate :: rat
  an_total_courses :: nat
  an_completed_learning_hours :: rat
  an_categories :: "(string \<times> nat) list"

text \<open>The entries \<open>insights['github']\<close> and \<open>insights['udemy']\<close>.\<close>

record github_insight =
  total_commits :: int
  active_repos :: nat
  languages :: "string list"
  recent_activity :: "commit_data list"

record udemy_insight =
  completion_rate :: rat
  total_courses :: nat
  learning_hours :: rat
  categories :: "string list"

record recommendation =
  rec_type :: string
  title :: string
  reason :: string

record insights =
  github :: "github_insight option"
  udemy :: "udemy_insight option"
  calendar :: "unit option"
  recommendations :: "recommendation list"
  overall_score :: int

definition github_insights :: "github_activity \<Rightarrow> github_insight" where
  "github_insights activity =
     \<lparr>total_commits = act_total_commits activity,
      active_repos = length (act_active_repos activity),
      languages = map fst (act_languages_used activity),
      recent_activity = take 5 (act_recent_commits activity)\<rparr>"

definition udemy_insights :: "udemy_analytics \<Rightarrow> udemy_insight" where
  "udemy_insights an =
     \<lparr>completion_rate = an_completion_rate an,
      total_courses = an_total_courses an,
      learning_hours = an_completed_learning_hours an,
      categories = map fst (an_categories an)\<rparr>"

text \<open>The four suggestions the function can make.\<close>

definition data_science_suggestion :: recommendation where
  "data_science_suggestion =
     \<lparr>rec_type = ''course_suggestion'',
      title = ''Complete a Data Science course'',
      reason = ''You are active in Python - perfect for Data Science!''\<rparr>"

definition devops_suggestion :: recommendation where
  "devops_suggestion =
     \<lparr>rec_type = ''skill_development'',
      title = ''Learn DevOps and CI/CD'',
      reason = ''Your high coding activity suggests you'' @ [CHR 0x27] @ ''d benefit from DevOps skills''\<rparr>"

definition connect_github_suggestion :: recommendation where
  "connect_github_suggestion =
     \<lparr>rec_type = ''platform_integration'',
      title = ''Connect your GitHub account'',
      reason = ''Track your coding progress alongside your courses''\<rparr>"

definition online_courses_suggestion :: recommendation where
  "online_courses_suggestion =
     \<lparr>rec_type = ''learning_enhancement'',
      title = ''Add structured learning with online courses'',
      reason = ''Complement your coding with formal education''\<rparr>"

text \<open>
  The block that fills \<open>recommendations\<close>: \<open>if github and udemy\<close>, \<open>elif udemy and not
  github\<close>, \<open>elif github and not udemy\<close>.  In the first branch the two tests are
  independent and append in this order.
\<close>

definition cross_platform_recommendations ::
  "github_insight option \<Rightarrow> udemy_insight option \<Rightarrow> recommendation list" where
  "cross_platform_recommendations g u =
     (case (g, u) of
        (Some gi, Some ui) \<Rightarrow>
          (let github_languages = set (languages gi);
               udemy_categories = set (categories ui)
           in (if ''Python'' \<in> github_languages \<and> ''Data Science'' \<notin> udemy_categories
               then [data_science_suggestion] else []) @
              (if 50 < total_commits gi \<and> ''DevOps'' \<notin> udemy_categories
               then [devops_suggestion] else []))
      | (None, Some ui) \<Rightarrow> [connect_github_suggestion]
      | (Some gi, None) \<Rightarrow> [online_courses_suggestion]
      | (None, None) \<Rightarrow> [])"

text \<open>
  The block that computes the score, one definition for each \<open>if\<close>: the score before
  the block goes in, the score after it comes out, unless a step raises.
  \<open>total_commits / 10\<close> divides two ints, \<open>completion_rate / 2\<close> a float by an int; the
  lengths are ints.
\<close>

definition github_points :: "pynum \<Rightarrow> github_insight option \<Rightarrow> error + pynum" where
  "github_points sc g =
     (case g of
        None \<Rightarrow> Inr sc
      | Some gi \<Rightarrow>
          and_then (int_truediv (total_commits gi) 10) (\<lambda>q.
          and_then (py_add sc (py_min2 (PFloat (Fin q)) (PInt 30))) (\<lambda>sc1.
          py_add sc1 (PInt (int (length (languages gi)) * 5)))))"

definition udemy_points :: "pynum \<Rightarrow> udemy_insight option \<Rightarrow> error + pynum" where
  "udemy_points sc u =
     (case u of
        None \<Rightarrow> Inr sc
      | Some ui \<Rightarrow>
          and_then (float_div_int (completion_rate ui) 2) (\<lambda>h.
          and_then (py_add sc (PFloat h)) (\<lambda>sc1.
          py_add sc1 (PInt (int (length (categories ui)) * 3)))))"

text \<open>\<open>min(round(score), 100)\<close> of the score after both blocks.\<close>

definition learning_score :: "github_insight option \<Rightarrow> udemy_insight option \<Rightarrow> error + int" where
  "learning_score g u =
     and_then (github_points (PInt 0) g) (\<lambda>sc1.
     and_then (udemy_points sc1 u) (\<lambda>sc2.
     and_then (py_round sc2) (\<lambda>r. Inr (min r 100))))"

text \<open>
  \<open>get_user_learning_insights\<close>.  For each platform the input is the outcome of the
  steps before its entry is filled: \<open>Inl\<close> when an exception escaped them, \<open>Inr None\<close> when
  the platform is not connected, not authenticated or its fetch reported failure,
  \<open>Inr (Some d)\<close> with the fetched data otherwise.  \<open>Inr\<close> of the insights is the return
  \<open>(True, insights)\<close>; \<open>Inl\<close> is the return \<open>(False, str(e))\<close> of the handler, also for an
  exception of the score arithmetic.
\<close>

definition get_user_learning_insights ::
  "error + github_activity option \<Rightarrow> error + udemy_analytics option \<Rightarrow> error + insights" where
  "get_user_learning_insights github_fetch udemy_fetch =
     (case github_fetch of
        Inl e \<Rightarrow> Inl e
      | Inr activity \<Rightarrow>
          (case udemy_fetch of
             Inl e \<Rightarrow> Inl e
           | Inr an \<Rightarrow>
               let g = map_option github_insights activity;
                   u = map_option udemy_insights an;
                   recs = cross_platform_recommendations g u
               in (case learning_score g u of
                     Inl e \<Rightarrow> Inl e
                   | Inr n \<Rightarrow>
                       Inr \<lparr>github = g, udemy = u, calendar = None,
                             recommendations = recs, overall_score = n\<rparr>)))"

section \<open>Study plans from the generative text service\<close>

text \<open>\<open>get_remediation_resources\<close>; \<open>topic.replace(' ', '+')\<close> cannot raise on a string.\<close>

record remediation =
  video_url :: string
  article_url :: string
  practice_url :: string
  description :: string

definition replace_spaces :: "string \<Rightarrow> string" where
  "replace_spaces s = map (\<lambda>c. if c = CHR '' '' then CHR ''+'' else c) s"

definition get_remediation_resources :: "string \<Rightarrow> remediation option" where
  "get_remediation_resources tp =
     (let topic_clean = replace_spaces tp
      in Some \<lparr>video_url = ''https://www.youtube.com/results?search_query='' @ topic_clean @ ''+tutorial'',
               article_url = ''https://www.google.com/search?q='' @ topic_clean @ ''+comprehensive+guide'',
               practice_url = ''https://www.google.com/search?q='' @ topic_clean @ ''+practice+exercises'',
               description = ''Additional learning resources for '' @ tp\<rparr>)"

text \<open>The three resource entries, given the three urls.\<close>

definition resource_entries :: "string \<Rightarrow> string \<Rightarrow> string \<Rightarrow> string \<Rightarrow> json list" where
  "resource_entries subject video article practice =
     [JObj [(''type'', JStr ''video''),
            (''title'', JStr (''YouTube Tutorials for '' @ subject)),
            (''url'', JStr video)],
      JObj [(''type'', JStr ''article''),
            (''title'', JStr (''Comprehensive Guides for '' @ subject)),
            (''url'', JStr article)],
      JObj [(''type'', JStr ''practice''),
            (''title'', JStr (''Practice Exercises for '' @ subject)),
            (''url'', JStr practice)]]"

text \<open>\<open>d[k] = v\<close> on a dict: an existing key keeps its place, a new key goes to the end.\<close>

fun dict_set :: "(string \<times> json) list \<Rightarrow> string \<Rightarrow> json \<Rightarrow> (string \<times> json) list" where
  "dict_set [] k v = [(k, v)]"
| "dict_set ((k', v') # d) k v = (if k' = k then (k, v) # d else (k', v') # dict_set d k v)"

text \<open>
  \<open>plan_data.setdefault('resources', [])\<close> followed by
  \<open>plan_data['resources'].extend(entries)\<close>.  Both are attribute lookups that raise when
  \<open>plan_data\<close> is not a dict or the value under \<open>resources\<close> is not a list: \<open>None\<close>.
\<close>

definition add_resources :: "json \<Rightarrow> json list \<Rightarrow> json option" where
  "add_resources plan_data entries =
     (case plan_data of
        JObj d \<Rightarrow>
          (case map_of d ''resources'' of
             None \<Rightarrow> Some (JObj (dict_set d ''resources'' (JArr entries)))
           | Some (JArr xs) \<Rightarrow> Some (JObj (dict_set d ''resources'' (JArr (xs @ entries))))
           | Some _ \<Rightarrow> None)
      | _ \<Rightarrow> None)"

text \<open>The inner \<open>try\<close> block; \<open>None\<close> when anything in it raises.\<close>

definition parse_plan :: "(string \<Rightarrow> json option) \<Rightarrow> string \<Rightarrow> string \<Rightarrow> json option" where
  "parse_plan json_loads content subject =
     (case json_loads content of
        None \<Rightarrow> None
      | Some plan_data \<Rightarrow>
          (case get_remediation_resources subject of
             None \<Rightarrow> Some plan_data
           | Some r \<Rightarrow>
               add_resources plan_data
                 (resource_entries subject (video_url r) (article_url r) (practice_url r))))"

text \<open>The dict built by the bare \<open>except\<close> around it.\<close>

definition fallback_plan :: "string \<Rightarrow> string \<Rightarrow> string \<Rightarrow> string \<Rightarrow> json" where
  "fallback_plan subject content current_level time_commitment =
     (let r = get_remediation_resources subject
      in JObj [(''title'', JStr (''Study Plan: '' @ subject)),
               (''overview'', JStr content),
               (''duration'', JStr time_commitment),
               (''difficulty'', JStr current_level),
               (''modules'', JArr []),
               (''milestones'', JArr []),
               (''resources'',
                  JArr (resource_entries subject
                          (case r of None \<Rightarrow> [] | Some x \<Rightarrow> video_url x)
                          (case r of None \<Rightarrow> [] | Some x \<Rightarrow> article_url x)
                          (case r of None \<Rightarrow> [] | Some x \<Rightarrow> practice_url x))),
               (''tips'', JArr [])])"

text \<open>
  \<open>generate_plan_with_groq\<close> returns \<open>(True, plan)\<close> or \<open>(False, str(e))\<close>.  The parser
  \<open>json.loads\<close> of the standard library is the parameter \<open>json_loads\<close>, \<open>None\<close> where it
  raises.  \<open>response\<close> is the outcome of the chat completion: the text of the first
  choice, or the exception raised while reading the key, connecting or calling.
\<close>

definition generate_plan_with_groq ::
  "(string \<Rightarrow> json option) \<Rightarrow> error + string \<Rightarrow> string \<Rightarrow> string \<Rightarrow> string \<Rightarrow> string \<Rightarrow> string
     \<Rightarrow> bool \<times> json" where
  "generate_plan_with_groq json_loads response subject learning_goal current_level
       time_commitment additional_context =
     (case response of
        Inl (Error msg) \<Rightarrow> (False, JStr msg)
      | Inr content \<Rightarrow>
          (case parse_plan json_loads content subject of
             Some plan_data \<Rightarrow> (True, plan_data)
           | None \<Rightarrow> (True, fallback_plan subject content current_level time_commitment)))"

section \<open>Properties of binary64 rounding\<close>

lemma rne_of_int: "rne (of_int n) = n"
  by (simp add: rne_def)

lemma rne_floor_le: "\<lfloor>x\<rfloor> \<le> rne x"
  by (simp add: rne_def Let_def)

lemma rne_le_ceil: "rne x \<le> \<lfloor>x\<rfloor> + 1"
  by (simp add: rne_def Let_def)

lemma rne_mono: assumes "x \<le> y" shows "rne x \<le> rne y"
proof (cases "\<lfloor>x\<rfloor> = \<lfloor>y\<rfloor>")
  case True
  with assms show ?thesis by (auto simp: rne_def Let_def)
next
  case False
  with assms have "\<lfloor>x\<rfloor> < \<lfloor>y\<rfloor>" by (simp add: floor_mono order.strict_iff_order)
  then have "rne x \<le> \<lfloor>y\<rfloor>" using rne_le_ceil [of x] by linarith
  then show ?thesis using rne_floor_le [of y] by linarith
qed

lemma rne_ge_int: "of_int n \<le> x \<Longrightarrow> n \<le> rne x"
  using rne_mono [of "of_int n" x] by (simp add: rne_of_int)

lemma rne_le_int: "x \<le> of_int n \<Longrightarrow> rne x \<le> n"
  using rne_mono [of x "of_int n"] by (simp add: rne_of_int)

lemma pow2_pos: "0 < (2::rat) powi e"
  by simp

lemma pow2_less_iff: "(2::rat) powi a < 2 powi b \<longleftrightarrow> a < b"
proof
  assume "(2::rat) powi a < 2 powi b"
  then show "a < b"
    using power_int_increasing [of b a "2::rat"] by (cases "a < b") auto
next
  assume "a < b"
  then show "(2::rat) powi a < 2 powi b"
    by (simp add: power_int_strict_increasing)
qed

lemma pow2_le_iff: "(2::rat) powi a \<le> 2 powi b \<longleftrightarrow> a \<le> b"
  using pow2_less_iff [of b a] by (auto simp: not_less [symmetric])

lemma ilog2_bounds:
  assumes "x \<noteq> 0"
  shows "2 powi (ilog2 x) \<le> \<bar>x\<bar>" and "\<bar>x\<bar> < 2 powi (ilog2 x + 1)"
proof -
  obtain p q where pq: "quotient_of \<bar>x\<bar> = (p, q)" by (cases "quotient_of \<bar>x\<bar>")
  then have q: "0 < q" and x: "\<bar>x\<bar> = of_int p / of_int q"
    using quotient_of_denom_pos quotient_of_div by blast+
  from assms x q have p: "0 < p"
  proof -
    have "0 < \<bar>x\<bar>" using assms by simp
    then have "0 < (of_int p :: rat) / of_int q" by (simp add: x)
    then show ?thesis using q by (simp add: zero_less_divide_iff)
  qed
  define d where "d = bitlen p - bitlen q"
  have bp: "(2::rat) ^ nat (bitlen p - 1) \<le> of_int p" "of_int p < (2::rat) ^ nat (bitlen p)"
    using bitlen_bounds [OF p] by (metis of_int_le_iff of_int_numeral of_int_power, metis of_int_less_iff of_int_numeral of_int_power)
  have bq: "(2::rat) ^ nat (bitlen q - 1) \<le> of_int q" "of_int q < (2::rat) ^ nat (bitlen q)"
    using bitlen_bounds [OF q] by (metis of_int_le_iff of_int_numeral of_int_power, metis of_int_less_iff of_int_numeral of_int_power)
  have bp1: "1 \<le> bitlen p" and bq1: "1 \<le> bitlen q"
    using p q bitlen_eq_zero_iff [of p] bitlen_eq_zero_iff [of q] bitlen_nonneg [of p] bitlen_nonneg [of q]
    by linarith+
  have P: "(2::rat) powi (bitlen p - 1) \<le> of_int p" "of_int p < (2::rat) powi (bitlen p)"
    using bp bp1 by (simp_all add: power_int_def)
  have Q: "(2::rat) powi (bitlen q - 1) \<le> of_int q" "of_int q < (2::rat) powi (bitlen q)"
    using bq bq1 by (simp_all add: power_int_def)
  have qpos: "(0::rat) < of_int q" using q by simp
  have up: "\<bar>x\<bar> < 2 powi (d + 1)"
  proof -
    have "of_int p < (2::rat) powi (d + 1) * 2 powi (bitlen q - 1)"
      using P(2) by (simp add: d_def power_int_add [symmetric])
    also have "\<dots> \<le> 2 powi (d + 1) * of_int q"
      using Q(1) by (simp add: mult_left_mono)
    finally show ?thesis using qpos by (simp add: x pos_divide_less_eq)
  qed
  have lo: "2 powi (d - 1) \<le> \<bar>x\<bar>"
  proof -
    have "(2::rat) powi (d - 1) * of_int q \<le> 2 powi (d - 1) * 2 powi (bitlen q)"
      using Q(2) by (simp add: mult_left_mono)
    also have "\<dots> = 2 powi (bitlen p - 1)"
      by (simp add: d_def power_int_add [symmetric])
    also have "\<dots> \<le> of_int p" by (rule P(1))
    finally show ?thesis using qpos by (simp add: x pos_le_divide_eq)
  qed
  have il: "ilog2 x = (if 2 powi d \<le> \<bar>x\<bar> then d else d - 1)"
    by (simp add: ilog2_def pq d_def Let_def)
  show "2 powi (ilog2 x) \<le> \<bar>x\<bar>" using lo by (simp add: il)
  show "\<bar>x\<bar> < 2 powi (ilog2 x + 1)" using up by (auto simp: il not_le)
qed

lemma ilog2_unique:
  assumes "2 powi e \<le> \<bar>x\<bar>" and "\<bar>x\<bar> < 2 powi (e + 1)"
  shows "ilog2 x = e"
proof -
  have nz: "x \<noteq> 0"
  proof
    assume "x = 0"
    with assms(1) have "(2::rat) powi e \<le> 0" by simp
    with pow2_pos [of e] show False by linarith
  qed
  have "(2::rat) powi e < 2 powi (ilog2 x + 1)"
    using assms(1) ilog2_bounds(2) [OF nz] by simp
  then have a: "e < ilog2 x + 1" by (simp add: pow2_less_iff)
  have "(2::rat) powi (ilog2 x) < 2 powi (e + 1)"
    using assms(2) ilog2_bounds(1) [OF nz] by simp
  then have b: "ilog2 x < e + 1" by (simp add: pow2_less_iff)
  from a b show ?thesis by simp
qed

lemma ilog2_mono:
  assumes "0 < x" and "x \<le> y"
  shows "ilog2 x \<le> ilog2 y"
proof -
  have "(2::rat) powi (ilog2 x) \<le> \<bar>x\<bar>" using assms ilog2_bounds(1) [of x] by simp
  also have "\<dots> \<le> \<bar>y\<bar>" using assms by simp
  also have "\<dots> < 2 powi (ilog2 y + 1)" using assms ilog2_bounds(2) [of y] by simp
  finally show ?thesis by (simp add: pow2_less_iff)
qed


lemma pow2_shift53: "(9007199254740992::rat) * 2 powi (e - 52) = 2 powi (e + 1)"
proof -
  have "(2::rat) powi 53 * 2 powi (e - 52) = 2 powi (53 + (e - 52))"
    by (rule power_int_add [symmetric]) simp
  moreover have "53 + (e - 52) = e + 1" by simp
  moreover have "(2::rat) powi 53 = 9007199254740992" by simp
  ultimately show ?thesis by (simp only:)
qed

lemma pow2_shift52: "(4503599627370496::rat) * 2 powi (e - 52) = 2 powi e"
proof -
  have "(2::rat) powi 52 * 2 powi (e - 52) = 2 powi (52 + (e - 52))"
    by (rule power_int_add [symmetric]) simp
  moreover have "52 + (e - 52) = e" by simp
  moreover have "(2::rat) powi 52 = 4503599627370496" by simp
  ultimately show ?thesis by (simp only:)
qed

lemma ulp_pos: "0 < ulp x"
  by (simp add: ulp_def)

lemma fl_nonneg: "0 \<le> x \<Longrightarrow> 0 \<le> fl x"
  using rne_ge_int [of 0 "x / ulp x"] ulp_pos [of x]
  by (simp add: fl_def)

lemma fl_le_pow2:
  assumes "0 < x"
  shows "fl x \<le> 2 powi (max (ilog2 x) (- 1022) + 1)"
proof -
  define e where "e = max (ilog2 x) (- 1022)"
  have u: "ulp x = 2 powi (e - 52)" by (simp add: ulp_def e_def)
  have "x < 2 powi (ilog2 x + 1)" using assms ilog2_bounds(2) [of x] by simp
  also have "\<dots> \<le> 2 powi (e + 1)" by (simp add: pow2_le_iff e_def)
  finally have "x < 2 powi (e + 1)" .
  then have "x / ulp x < 2 powi (e + 1) / 2 powi (e - 52)"
    by (simp add: u divide_strict_right_mono)
  also have "\<dots> = 2 powi 53" by (simp add: power_int_diff [symmetric])
  finally have "x / ulp x \<le> of_int 9007199254740992" by simp
  then have "rne (x / ulp x) \<le> 9007199254740992" by (rule rne_le_int)
  then have "(of_int (rne (x / ulp x)) :: rat) \<le> 9007199254740992"
    by (metis of_int_le_iff of_int_numeral)
  then have "fl x \<le> 9007199254740992 * 2 powi (e - 52)"
    using assms by (simp add: fl_def u mult_right_mono)
  also have "\<dots> = 2 powi (e + 1)" by (rule pow2_shift53)
  finally show ?thesis by (simp add: e_def)
qed

lemma fl_ge_pow2:
  assumes "0 < x" and "- 1022 \<le> ilog2 x"
  shows "2 powi (ilog2 x) \<le> fl x"
proof -
  define e where "e = ilog2 x"
  have u: "ulp x = 2 powi (e - 52)" using assms(2) by (simp add: ulp_def e_def max_def)
  have "2 powi e \<le> x" using assms ilog2_bounds(1) [of x] by (simp add: e_def)
  then have "2 powi e / 2 powi (e - 52) \<le> x / ulp x"
    by (simp add: u divide_right_mono)
  moreover have "(2::rat) powi e / 2 powi (e - 52) = 2 powi 52"
    by (simp add: power_int_diff [symmetric])
  ultimately have "of_int 4503599627370496 \<le> x / ulp x" by simp
  then have "4503599627370496 \<le> rne (x / ulp x)" by (rule rne_ge_int)
  then have "(4503599627370496 :: rat) \<le> of_int (rne (x / ulp x))"
    by (metis of_int_le_iff of_int_numeral)
  then have "4503599627370496 * 2 powi (e - 52) \<le> fl x"
    using assms by (simp add: fl_def u mult_right_mono)
  moreover have "(4503599627370496 :: rat) * 2 powi (e - 52) = 2 powi e"
    by (rule pow2_shift52)
  ultimately show ?thesis by (simp add: e_def)
qed

lemma fl_mono:
  assumes "0 \<le> x" and "x \<le> y"
  shows "fl x \<le> fl y"
proof (cases "x = 0")
  case True
  then show ?thesis using assms fl_nonneg [of y] by (simp add: fl_def)
next
  case False
  with assms have x: "0 < x" and y: "0 < y" by simp_all
  define ex where "ex = max (ilog2 x) (- 1022)"
  define ey where "ey = max (ilog2 y) (- 1022)"
  have le: "ex \<le> ey" using ilog2_mono [OF x assms(2)] by (simp add: ex_def ey_def)
  show ?thesis
  proof (cases "ex = ey")
    case True
    then have u: "ulp x = ulp y" by (simp add: ulp_def ex_def ey_def)
    have "x / ulp y \<le> y / ulp y" using assms(2) ulp_pos [of y] by (simp add: divide_right_mono)
    then have "rne (x / ulp y) \<le> rne (y / ulp y)" by (rule rne_mono)
    then have "(of_int (rne (x / ulp y)) :: rat) \<le> of_int (rne (y / ulp y))" by simp
    then show ?thesis using x y ulp_pos [of y] by (simp add: fl_def u mult_right_mono)
  next
    case False
    with le have lt: "ex < ey" by simp
    then have ey: "ey = ilog2 y" and big: "- 1022 \<le> ilog2 y" by (auto simp: ex_def ey_def)
    have "fl x \<le> 2 powi (ex + 1)" using fl_le_pow2 [OF x] by (simp add: ex_def)
    also have "\<dots> \<le> 2 powi ey" using lt by (simp add: pow2_le_iff)
    also have "\<dots> \<le> fl y" using fl_ge_pow2 [OF y big] by (simp add: ey)
    finally show ?thesis .
  qed
qed

lemma fl_exact:
  assumes m: "0 < m" "m < 2 ^ 53" and k: "- 1074 \<le> k"
  shows "fl (of_int m * 2 powi k) = of_int m * 2 powi k"
proof -
  define x :: rat where "x = of_int m * 2 powi k"
  have xpos: "0 < x" using m(1) by (simp add: x_def)
  define e where "e = max (ilog2 x) (- 1022)"
  have u: "ulp x = 2 powi (e - 52)" by (simp add: ulp_def e_def)
  have "(of_int m :: rat) < of_int (2 ^ 53)" using m(2) by (simp only: of_int_less_iff)
  then have "x < 9007199254740992 * 2 powi k" by (simp add: x_def)
  also have "\<dots> = 2 powi (53 + k)" using power_int_add [of "2::rat" 53 k] by simp
  finally have "x < 2 powi (53 + k)" .
  moreover have "2 powi (ilog2 x) \<le> x" using xpos ilog2_bounds(1) [of x] by simp
  ultimately have "(2::rat) powi (ilog2 x) < 2 powi (53 + k)" by simp
  then have "ilog2 x < 53 + k" by (simp add: pow2_less_iff)
  with k have j: "0 \<le> k - (e - 52)" by (simp add: e_def)
  define j where "j = nat (k - (e - 52))"
  have kj: "k = (e - 52) + int j" using j by (simp add: j_def)
  have "x / ulp x = x / 2 powi (e - 52)" by (simp only: u)
  also have "\<dots> = of_int m * (2 powi k / 2 powi (e - 52))" by (simp add: x_def)
  also have "(2::rat) powi k / 2 powi (e - 52) = 2 powi (int j)"
    by (simp add: power_int_diff [symmetric] kj)
  also have "(2::rat) powi (int j) = of_int (2 ^ j)" by (simp add: power_int_def)
  finally have q: "x / ulp x = of_int (m * 2 ^ j)" by simp
  have "fl x = of_int (m * 2 ^ j) * ulp x"
    using xpos by (simp add: fl_def q rne_of_int del: of_int_mult of_int_power)
  also have "\<dots> = x" using ulp_pos [of x] q by (metis nonzero_divide_eq_eq less_irrefl)
  finally show ?thesis by (simp add: x_def)
qed

lemma fl_of_int:
  assumes "0 \<le> n" and "n < 2 ^ 53"
  shows "fl (of_int n) = of_int n"
proof (cases "n = 0")
  case True
  then show ?thesis by (simp add: fl_def)
next
  case False
  with assms fl_exact [of n 0] show ?thesis by simp
qed


lemma double_repr:
  assumes "is_double x" and "0 < x"
  shows "\<exists>m k. x = of_int m * 2 powi k \<and> 0 < m \<and> m < 2 ^ 53 \<and> - 1074 \<le> k"
proof -
  define e where "e = max (ilog2 x) (- 1022)"
  define m where "m = rne (x / ulp x)"
  have u: "ulp x = 2 powi (e - 52)" by (simp add: ulp_def e_def)
  have xm: "x = of_int m * 2 powi (e - 52)"
    using assms by (simp add: is_double_def fl_def m_def u split: if_splits)
  have "0 < (of_int m :: rat) * 2 powi (e - 52)" using assms(2) xm by simp
  then have "0 < (of_int m :: rat)" using pow2_pos [of "e - 52"] zero_less_mult_pos2 by blast
  then have mpos: "0 < m" by simp
  have "x < 2 powi (ilog2 x + 1)" using assms(2) ilog2_bounds(2) [of x] by simp
  also have "\<dots> \<le> 2 powi (e + 1)" by (simp add: pow2_le_iff e_def)
  also have "\<dots> = 9007199254740992 * 2 powi (e - 52)"
    by (rule pow2_shift53 [symmetric])
  finally have "of_int m * 2 powi (e - 52) < (9007199254740992::rat) * 2 powi (e - 52)"
    using xm by simp
  then have "(of_int m :: rat) < of_int 9007199254740992" by simp
  then have "m < 2 ^ 53" by (simp only: of_int_less_iff) simp
  moreover have "- 1074 \<le> e - 52" by (simp add: e_def)
  ultimately show ?thesis using xm mpos by blast
qed

lemma fl_twice:
  assumes "is_double x" and "0 \<le> x"
  shows "fl (2 * x) = 2 * x"
proof (cases "x = 0")
  case True
  then show ?thesis by (simp add: fl_def)
next
  case False
  with assms have "0 < x" by simp
  from double_repr [OF assms(1) this] obtain m k
    where x: "x = of_int m * 2 powi k" and m: "0 < m" "m < 2 ^ 53" and k: "- 1074 \<le> k"
    by blast
  have "2 * x = of_int m * 2 powi (k + 1)" by (simp add: x power_int_add)
  moreover have "fl (of_int m * 2 powi (k + 1)) = of_int m * 2 powi (k + 1)"
    using m k by (intro fl_exact) simp_all
  ultimately show ?thesis by simp
qed

lemma fl_idem:
  assumes "0 \<le> x"
  shows "fl (fl x) = fl x"
proof (cases "fl x = 0")
  case True
  then show ?thesis by (simp add: fl_def)
next
  case False
  then have x: "0 < x" using assms by (auto simp: fl_def order.strict_iff_order)
  define e where "e = max (ilog2 x) (- 1022)"
  define m where "m = rne (x / ulp x)"
  have u: "ulp x = 2 powi (e - 52)" by (simp add: ulp_def e_def)
  have fx: "fl x = of_int m * 2 powi (e - 52)" using x by (simp add: fl_def m_def u)
  have "0 \<le> fl x" using assms by (rule fl_nonneg)
  with False have "0 < fl x" by simp
  then have "0 < (of_int m :: rat) * 2 powi (e - 52)" by (simp only: fx)
  then have "0 < (of_int m :: rat)" using pow2_pos [of "e - 52"] zero_less_mult_pos2 by blast
  then have mpos: "0 < m" by simp
  have "fl x \<le> 2 powi (e + 1)" using fl_le_pow2 [OF x] by (simp add: e_def)
  also have "\<dots> = 9007199254740992 * 2 powi (e - 52)"
    by (rule pow2_shift53 [symmetric])
  finally have "(of_int m :: rat) \<le> of_int 9007199254740992" by (simp add: fx)
  then have mle: "m \<le> 2 ^ 53" by (simp only: of_int_le_iff) simp
  have k: "- 1074 \<le> e - 52" by (simp add: e_def)
  show ?thesis
  proof (cases "m = 2 ^ 53")
    case True
    have "fl x = of_int (2 ^ 52) * 2 powi (e - 52 + 1)"
      using power_int_add [of "2::rat" "e - 52" 1] by (simp add: fx True)
    moreover have "fl (of_int (2 ^ 52) * 2 powi (e - 52 + 1)) = of_int (2 ^ 52) * 2 powi (e - 52 + 1)"
      using k by (intro fl_exact) simp_all
    ultimately show ?thesis by simp
  next
    case False
    with mle have "m < 2 ^ 53" by simp
    then show ?thesis unfolding fx using mpos k by (intro fl_exact)
  qed
qed

lemma fl_small_values:
  "fl 0 = 0" "fl 1 = 1" "fl 2 = 2" "fl 6 = 6" "fl 10 = 10" "fl 15 = 15" "fl 25 = 25"
  "fl 40 = 40" "fl 46 = 46" "fl 65 = 65" "fl 71 = 71" "fl 100 = 100" "rne 71 = 71"
  by code_simp+

section \<open>The learning streak\<close>

lemma collect_dates_set:
  "set (collect_dates acc qs) = set acc \<union> completion_dates qs"
  by (induction qs arbitrary: acc) (auto split: option.splits)

lemma collect_dates_distinct:
  "distinct acc \<Longrightarrow> distinct (collect_dates acc qs)"
  by (induction qs arbitrary: acc) (auto split: option.splits)

lemma sort_dates_unique:
  assumes "distinct ds" and "set ds = set es" and "sorted es" and "distinct es"
  shows "sort ds = es"
  using assms by (intro sorted_distinct_set_unique) simp_all

lemma streak_of_three_days:
  assumes "completion_dates (take 30 docs) = {today, today - 1, today - 2}"
  shows "get_learning_streak today (Inr docs) = 3"
proof -
  define ds where "ds = collect_dates [] (take 30 docs)"
  have d: "distinct ds" by (simp add: ds_def collect_dates_distinct)
  have s: "set ds = set [today - 2, today - 1, today]"
    using assms by (auto simp: ds_def collect_dates_set)
  have "sort ds = [today - 2, today - 1, today]"
    using d s by (rule sort_dates_unique) simp_all
  moreover have "ds \<noteq> []" using s by auto
  ultimately show ?thesis
    by (simp add: get_learning_streak_def ds_def [symmetric])
qed

lemma streak_over_a_gap:
  assumes "completion_dates (take 30 docs) = {today, today - 2}"
  shows "get_learning_streak today (Inr docs) = 2"
proof -
  define ds where "ds = collect_dates [] (take 30 docs)"
  have d: "distinct ds" by (simp add: ds_def collect_dates_distinct)
  have s: "set ds = set [today - 2, today]"
    using assms by (auto simp: ds_def collect_dates_set)
  have "sort ds = [today - 2, today]"
    using d s by (rule sort_dates_unique) simp_all
  moreover have "ds \<noteq> []" using s by auto
  ultimately show ?thesis
    by (simp add: get_learning_streak_def ds_def [symmetric])
qed

text \<open>
  Claim C1.  When the completion dates of the (at most 30) newest quiz records are today,
  yesterday and the day before, \<open>get_learning_streak\<close> returns 3.  When they are today and
  the day before yesterday, with nothing yesterday, the claim expects 1, but the function
  returns 2: each step of the walk accepts the expected date or the day before it, so
  the day before yesterday is accepted after today.
\<close>

theorem get_learning_streak_dates:
  "(completion_dates (take 30 a) = {today, today - 1, today - 2}
      \<longrightarrow> get_learning_streak today (Inr a) = 3)
   \<and> (completion_dates (take 30 b) = {today, today - 2}
      \<longrightarrow> get_learning_streak today (Inr b) = 2)"
  using streak_of_three_days [of a today] streak_over_a_gap [of b today] by blast

theorem get_learning_streak_dates_witness:
  "completion_dates (take 30
     [\<lparr>topic = Some ''Python'', score = Some 4, total_questions = Some 5,
       percentage = Some 80, completed_at = Some \<lparr>ts_date = 739558, ts_nanos = 0\<rparr>\<rparr>,
      \<lparr>topic = Some ''Python'', score = Some 3, total_questions = Some 5,
       percentage = Some 60, completed_at = Some \<lparr>ts_date = 739557, ts_nanos = 0\<rparr>\<rparr>,
      \<lparr>topic = Some ''SQL'', score = Some 5, total_questions = Some 10,
       percentage = Some 50, completed_at = Some \<lparr>ts_date = 739556, ts_nanos = 0\<rparr>\<rparr>])
     = {739558, 739558 - 1, 739558 - 2}
   \<and> get_learning_streak 739558 (Inr
     [\<lparr>topic = Some ''Python'', score = Some 4, total_questions = Some 5,
       percentage = Some 80, completed_at = Some \<lparr>ts_date = 739558, ts_nanos = 0\<rparr>\<rparr>,
      \<lparr>topic = Some ''Python'', score = Some 3, total_questions = Some 5,
       percentage = Some 60, completed_at = Some \<lparr>ts_date = 739557, ts_nanos = 0\<rparr>\<rparr>,
      \<lparr>topic = Some ''SQL'', score = Some 5, total_questions = Some 10,
       percentage = Some 50, completed_at = Some \<lparr>ts_date = 739556, ts_nanos = 0\<rparr>\<rparr>]) = 3
   \<and> completion_dates (take 30
     [\<lparr>topic = Some ''Python'', score = Some 4, total_questions = Some 5,
       percentage = Some 80, completed_at = Some \<lparr>ts_date = 739558, ts_nanos = 0\<rparr>\<rparr>,
      \<lparr>topic = Some ''SQL'', score = Some 5, total_questions = Some 10,
       percentage = Some 50, completed_at = Some \<lparr>ts_date = 739556, ts_nanos = 0\<rparr>\<rparr>])
     = {739558, 739558 - 2}
   \<and> get_learning_streak 739558 (Inr
     [\<lparr>topic = Some ''Python'', score = Some 4, total_questions = Some 5,
       percentage = Some 80, completed_at = Some \<lparr>ts_date = 739558, ts_nanos = 0\<rparr>\<rparr>,
      \<lparr>topic = Some ''SQL'', score = Some 5, total_questions = Some 10,
       percentage = Some 50, completed_at = Some \<lparr>ts_date = 739556, ts_nanos = 0\<rparr>\<rparr>]) = 2"
proof -
  let ?a = "[\<lparr>topic = Some ''Python'', score = Some 4, total_questions = Some 5,
       percentage = Some 80, completed_at = Some \<lparr>ts_date = 739558, ts_nanos = 0\<rparr>\<rparr>,
      \<lparr>topic = Some ''Python'', score = Some 3, total_questions = Some 5,
       percentage = Some 60, completed_at = Some \<lparr>ts_date = 739557, ts_nanos = 0\<rparr>\<rparr>,
      \<lparr>topic = Some ''SQL'', score = Some 5, total_questions = Some 10,
       percentage = Some 50, completed_at = Some \<lparr>ts_date = 739556, ts_nanos = 0\<rparr>\<rparr>]"
  let ?b = "[\<lparr>topic = Some ''Python'', score = Some 4, total_questions = Some 5,
       percentage = Some 80, completed_at = Some \<lparr>ts_date = 739558, ts_nanos = 0\<rparr>\<rparr>,
      \<lparr>topic = Some ''SQL'', score = Some 5, total_questions = Some 10,
       percentage = Some 50, completed_at = Some \<lparr>ts_date = 739556, ts_nanos = 0\<rparr>\<rparr>]"
  have ha: "completion_dates (take 30 ?a) = {739558, 739558 - 1, 739558 - 2}" by auto
  have hb: "completion_dates (take 30 ?b) = {739558, 739558 - 2}" by auto
  from ha hb get_learning_streak_dates [of ?a 739558 ?b] show ?thesis by blast
qed

section \<open>The analytics summary\<close>

text \<open>
  Claim C4.  On an empty quiz history \<open>get_user_analytics\<close> raises nothing and returns the
  summary it started from: \<open>total_quizzes\<close> and \<open>average_score\<close> are 0, no topic is best
  or worst.
\<close>

theorem get_user_analytics_empty:
  "get_user_analytics (Inr []) =
     Some \<lparr>total_quizzes = 0, average_score = 0, topics_studied = {}, quiz_history = [],
           best_topic = None, worst_topic = None, current_streak = 0\<rparr>"
  by (simp add: get_user_analytics_def)

lemma mean_examples: "mean [80, 60] = Some 70" "mean [50] = Some 50" "mean [80, 60, 50] \<noteq> None"
  by code_simp+

text \<open>
  Claim C6.  For two Python quizzes at 80 and 60 percent and one SQL quiz at 50 percent,
  \<open>get_topic_performance\<close> reports the average 70 for Python and 50 for SQL, and
  \<open>get_user_analytics\<close> names SQL as the worst topic.
\<close>

theorem topic_grouping_example:
  "get_topic_performance
     (Inr [q1\<lparr>topic := Some ''Python'', percentage := Some 80\<rparr>,
           q2\<lparr>topic := Some ''Python'', percentage := Some 60\<rparr>,
           q3\<lparr>topic := Some ''SQL'', percentage := Some 50\<rparr>])
   = [(''Python'', \<lparr>scores = [80, 60], topic_total_quizzes = 2, topic_average_score = 70,
                     best_score = 80, worst_score = 60\<rparr>),
      (''SQL'', \<lparr>scores = [50], topic_total_quizzes = 1, topic_average_score = 50,
                  best_score = 50, worst_score = 50\<rparr>)]
   \<and> map_option worst_topic
       (get_user_analytics
         (Inr [q1\<lparr>topic := Some ''Python'', percentage := Some 80\<rparr>,
               q2\<lparr>topic := Some ''Python'', percentage := Some 60\<rparr>,
               q3\<lparr>topic := Some ''SQL'', percentage := Some 50\<rparr>]))
     = Some (Some ''SQL'')"
  by (auto simp: get_topic_performance_def topic_data_def get_topic_def get_percentage_def
      get_user_analytics_def topic_scores_def mean_examples py_max_def py_min_def
      split: option.splits)

section \<open>The guard of the progress report\<close>

text \<open>
  Claim C5.  When the quiz history fetched for the report is empty,
  \<open>generate_analytics_pdf\<close> returns no document and the message
  \<open>No data available for PDF generation\<close>, whatever the analytics and whatever study
  plans the user has.
\<close>

theorem generate_analytics_pdf_no_history:
  assumes "get_user_quiz_history fetched_history 50 = []"
  shows "generate_analytics_pdf build_pdf fetched_scores fetched_history fetched_plans
           user_name user_email
         = (None, Some ''No data available for PDF generation'')"
  using assms by (simp add: generate_analytics_pdf_def split: option.splits)

theorem generate_analytics_pdf_no_history_witness:
  "get_user_quiz_history (Inr []) 50 = []
   \<and> generate_analytics_pdf (\<lambda>a h ps n e. Inr ''%PDF-1.4'') (Inr []) (Inr [])
        (Inr [\<lparr>plan_id = ''p1'', plan_goal = Some ''Learn SQL'', plan_content = Some (JStr ''Week 1''),
               plan_created_at = Some \<lparr>ts_date = 739550, ts_nanos = 0\<rparr>,
               plan_completed = Some False\<rparr>])
        ''Ada'' (Some ''ada@example.com'')
      = (None, Some ''No data available for PDF generation'')"
proof -
  have h: "get_user_quiz_history (Inr []) 50 = []" by (simp add: get_user_quiz_history_def)
  from h generate_analytics_pdf_no_history [OF h] show ?thesis by simp
qed

section \<open>Ranges and exceptions of the score arithmetic\<close>

text \<open>
  Below \<open>2 ^ 1024\<close> a rounded value is finite, so that the conversions, quotients and
  sums of the score return; from \<open>2 ^ 1024\<close> on they overflow.
\<close>

lemma fl_pow2: "- 1074 \<le> k \<Longrightarrow> fl (2 powi k) = 2 powi k"
  using fl_exact [of 1 k] by simp

lemma to_binary64_fin:
  assumes "0 \<le> x" and "x \<le> 2 powi k" and "- 1074 \<le> k" and "k < 1024"
  shows "to_binary64 x = Fin (fl x)" and "0 \<le> fl x" and "fl x \<le> 2 powi k"
proof -
  show nn: "0 \<le> fl x" using assms(1) by (rule fl_nonneg)
  have "fl x \<le> fl (2 powi k)" using assms(1,2) by (rule fl_mono)
  then show le: "fl x \<le> 2 powi k" using assms(3) by (simp add: fl_pow2)
  have "(2::rat) powi k < 2 powi 1024" using assms(4) by (simp only: pow2_less_iff)
  with le have lt: "fl x < 2 powi 1024" by (rule le_less_trans)
  have neg: "- ((2::rat) powi 1024) < 0" by simp
  from neg nn have gt: "- (2 powi 1024) < fl x" by (rule less_le_trans)
  show "to_binary64 x = Fin (fl x)"
    unfolding to_binary64_def Let_def using lt gt by (simp only: not_le [symmetric] if_False)
qed

lemma of_int_less_pow2:
  assumes "n < 2 ^ k"
  shows "(of_int n :: rat) < 2 powi (int k)"
proof -
  have "(of_int n :: rat) < of_int (2 ^ k)" using assms by (simp only: of_int_less_iff)
  then show ?thesis by (simp add: power_int_def)
qed

lemma int_to_float_fin:
  assumes "0 \<le> n" and "of_int n \<le> (2::rat) powi k" and "- 1074 \<le> k" and "k < 1024"
  shows "\<exists>x. int_to_float n = Inr x \<and> 0 \<le> x \<and> x \<le> 2 powi k"
proof -
  have "(0::rat) \<le> of_int n" using assms(1) by simp
  from to_binary64_fin [OF this assms(2,3,4)] show ?thesis
    by (simp add: int_to_float_def)
qed

lemma int_truediv_fin:
  assumes "0 \<le> a" and "0 < b" and "of_int a \<le> (2::rat) powi k" and "- 1074 \<le> k" and "k < 1024"
  shows "\<exists>q. int_truediv a b = Inr q \<and> 0 \<le> q \<and> q \<le> 2 powi k"
proof -
  have b1: "(1::rat) \<le> of_int b" using assms(2) by simp
  have nn: "(0::rat) \<le> of_int a / of_int b" using assms(1,2) by simp
  have "(of_int a :: rat) / of_int b \<le> of_int a / 1"
    using assms(1) b1 by (intro divide_left_mono) simp_all
  then have le: "(of_int a :: rat) / of_int b \<le> 2 powi k" using assms(3) by simp
  from to_binary64_fin [OF nn le assms(4,5)] assms(2) show ?thesis
    by (simp add: int_truediv_def)
qed

lemma score_between_PInt: "score_between lo hi (PInt n) \<longleftrightarrow> lo \<le> of_int n \<and> of_int n \<le> hi"
  by (simp add: score_between_def)

lemma score_between_Fin: "score_between lo hi (PFloat (Fin x)) \<longleftrightarrow> lo \<le> x \<and> x \<le> hi"
  by (simp add: score_between_def)

lemma score_between_cases:
  assumes "score_between lo hi s"
  obtains n where "s = PInt n" "lo \<le> of_int n" "of_int n \<le> hi"
        | x where "s = PFloat (Fin x)" "lo \<le> x" "x \<le> hi"
proof (cases s)
  case (PInt n)
  with assms that(1) show ?thesis by (simp add: score_between_def)
next
  case (PFloat f)
  with assms that(2) show ?thesis by (cases f) (simp_all add: score_between_def)
qed

lemma score_between_mono:
  "score_between lo hi s \<Longrightarrow> hi \<le> hi' \<Longrightarrow> score_between lo hi' s"
  by (auto simp: score_between_def split: option.splits)

lemma py_float_between:
  assumes "score_between 0 (2 powi k) s" and "- 1074 \<le> k" and "k < 1024"
  shows "\<exists>x. py_float s = Inr (Fin x) \<and> 0 \<le> x \<and> x \<le> 2 powi k"
  using assms(1)
proof (cases rule: score_between_cases)
  case (1 n)
  then have "0 \<le> n" by simp
  from int_to_float_fin [OF this 1(3) assms(2,3)] 1(1) show ?thesis
    by (auto simp: and_then_def)
next
  case (2 x)
  then show ?thesis by simp
qed

lemma py_add_between:
  assumes "score_between 0 (2 powi k) a" and "score_between 0 (2 powi k) b"
      and "- 1074 \<le> k" and "k < 1023"
  shows "\<exists>c. py_add a b = Inr c \<and> score_between 0 (2 powi (k + 1)) c"
proof -
  have dbl: "(2::rat) powi k + 2 powi k = 2 powi (k + 1)" by (simp add: power_int_add)
  show ?thesis
  proof (cases "\<exists>m n. a = PInt m \<and> b = PInt n")
    case True
    then obtain m n where ab: "a = PInt m" "b = PInt n" by blast
    with assms(1,2) have "0 \<le> (of_int m :: rat) + of_int n"
      and "(of_int m :: rat) + of_int n \<le> 2 powi k + 2 powi k"
      by (simp_all add: score_between_PInt)
    then show ?thesis using ab dbl by (simp add: score_between_PInt)
  next
    case False
    have k: "k < 1024" using assms(4) by simp
    from py_float_between [OF assms(1,3) k] obtain x
      where x: "py_float a = Inr (Fin x)" "0 \<le> x" "x \<le> 2 powi k" by blast
    from py_float_between [OF assms(2,3) k] obtain y
      where y: "py_float b = Inr (Fin y)" "0 \<le> y" "y \<le> 2 powi k" by blast
    have s0: "0 \<le> x + y" using x y by simp
    have s1: "x + y \<le> 2 powi (k + 1)" using x y dbl by simp
    have k1: "- 1074 \<le> k + 1" "k + 1 < 1024" using assms(3,4) by simp_all
    have "py_add a b = Inr (PFloat (float_add (Fin x) (Fin y)))"
      using False x y by (cases a; cases b) (simp_all add: and_then_def)
    with to_binary64_fin [OF s0 s1 k1] show ?thesis by (simp add: score_between_Fin)
  qed
qed

lemma py_min2_between:
  "score_between 0 hi a \<Longrightarrow> score_between 0 hi b \<Longrightarrow> score_between 0 hi (py_min2 a b)"
  by (simp add: py_min2_def)

lemma py_round_between:
  assumes "score_between 0 hi s"
  shows "\<exists>r. py_round s = Inr r \<and> 0 \<le> r"
  using assms
proof (cases rule: score_between_cases)
  case (1 n)
  then show ?thesis by simp
next
  case (2 x)
  then show ?thesis using rne_ge_int [of 0 x] by simp
qed


lemma pow2_ge_numeral: "(30::rat) \<le> 2 powi 1003" "(50::rat) \<le> 2 powi 1005"
  by simp_all

lemma github_points_between:
  assumes "score_between 0 (2 powi 1003) sc"
      and "\<forall>gi. g = Some gi \<longrightarrow> 0 \<le> total_commits gi \<and> total_commits gi < 2 ^ 1000
             \<and> length (languages gi) < 2 ^ 1000"
  shows "\<exists>s. github_points sc g = Inr s \<and> score_between 0 (2 powi 1005) s"
proof (cases g)
  case None
  have "score_between 0 (2 powi 1005) sc"
    using assms(1) by (rule score_between_mono) (simp only: pow2_le_iff)
  then show ?thesis by (simp add: github_points_def None)
next
  case (Some gi)
  with assms(2) have tc: "0 \<le> total_commits gi" "total_commits gi < 2 ^ 1000"
    and len: "length (languages gi) < 2 ^ 1000" by simp_all
  have "(of_int (total_commits gi) :: rat) < 2 powi (int 1000)" using tc(2) by (rule of_int_less_pow2)
  then have tcle: "(of_int (total_commits gi) :: rat) \<le> 2 powi 1000" by simp
  have "\<exists>q. int_truediv (total_commits gi) 10 = Inr q \<and> 0 \<le> q \<and> q \<le> 2 powi 1000"
    using tc(1) _ tcle by (rule int_truediv_fin) simp_all
  then obtain q
    where q: "int_truediv (total_commits gi) 10 = Inr q" "0 \<le> q" "q \<le> 2 powi 1000" by blast
  have "q \<le> 2 powi 1003"
    using q(3) by (rule order_trans) (simp only: pow2_le_iff)
  then have m: "score_between 0 (2 powi 1003) (py_min2 (PFloat (Fin q)) (PInt 30))"
    using q(2) pow2_ge_numeral(1)
    by (intro py_min2_between) (simp_all only: score_between_Fin score_between_PInt, simp_all)
  from py_add_between [OF assms(1) m] obtain sc1
    where sc1: "py_add sc (py_min2 (PFloat (Fin q)) (PInt 30)) = Inr sc1"
      "score_between 0 (2 powi (1003 + 1)) sc1" by auto
  have "int (length (languages gi)) < 2 ^ 1000" using len by (simp add: of_nat_less_iff [symmetric] del: of_nat_less_iff)
  then have "(of_int (int (length (languages gi))) :: rat) < 2 powi (int 1000)" by (rule of_int_less_pow2)
  then have "(of_int (int (length (languages gi)) * 5) :: rat) \<le> 2 powi 1004" by simp
  then have l5: "score_between 0 (2 powi 1004) (PInt (int (length (languages gi)) * 5))"
    by (simp add: score_between_PInt)
  have sc1': "score_between 0 (2 powi 1004) sc1" using sc1(2) by simp
  from py_add_between [OF sc1' l5] obtain s
    where "py_add sc1 (PInt (int (length (languages gi)) * 5)) = Inr s"
      "score_between 0 (2 powi (1004 + 1)) s" by auto
  then show ?thesis using q(1) sc1(1) by (simp add: github_points_def Some and_then_def)
qed

lemma to_binary64_of_int:
  assumes "0 \<le> n" and "n < 2 ^ 53"
  shows "to_binary64 (of_int n) = Fin (of_int n)"
proof -
  have nn: "(0::rat) \<le> of_int n" using assms(1) by simp
  have "(of_int n :: rat) < 2 powi (int 53)" using assms(2) by (rule of_int_less_pow2)
  then have le: "(of_int n :: rat) \<le> 2 powi 53" by simp
  have k1: "- 1074 \<le> (53::int)" and k2: "(53::int) < 1024" by simp_all
  from to_binary64_fin(1) [OF nn le k1 k2] fl_of_int [OF assms] show ?thesis by simp
qed

lemma to_binary64_small_values:
  "to_binary64 2 = Fin 2" "to_binary64 10 = Fin 10" "to_binary64 25 = Fin 25"
  "to_binary64 40 = Fin 40" "to_binary64 46 = Fin 46" "to_binary64 65 = Fin 65"
  "to_binary64 71 = Fin 71" "to_binary64 0 = Fin 0" "to_binary64 15 = Fin 15"
  "to_binary64 6 = Fin 6"
  using to_binary64_of_int [of 2] to_binary64_of_int [of 10] to_binary64_of_int [of 25]
    to_binary64_of_int [of 40] to_binary64_of_int [of 46] to_binary64_of_int [of 65]
    to_binary64_of_int [of 71] to_binary64_of_int [of 0] to_binary64_of_int [of 15]
    to_binary64_of_int [of 6]
  by simp_all

lemma to_binary64_overflow:
  assumes "2 powi 1024 \<le> x"
  shows "to_binary64 x = Inf True"
proof -
  have p: "(0::rat) \<le> 2 powi 1024" by simp
  have "fl (2 powi 1024) \<le> fl x" using p assms by (rule fl_mono)
  moreover have "fl (2 powi 1024) = 2 powi 1024" by (rule fl_pow2) simp
  ultimately have "2 powi 1024 \<le> fl x" by (simp only:)
  then show ?thesis unfolding to_binary64_def Let_def by (simp only: if_True)
qed

lemma int_truediv_overflow:
  assumes "b \<noteq> 0" and "2 powi 1024 \<le> (of_int a :: rat) / of_int b"
  shows "int_truediv a b = Inl (Error ''integer division result too large for a float'')"
  using assms(1) to_binary64_overflow [OF assms(2)] by (simp add: int_truediv_def)

lemma github_points_overflow:
  assumes "2 powi 1024 * 10 \<le> (of_int (total_commits gi) :: rat)"
  shows "github_points sc (Some gi)
           = Inl (Error ''integer division result too large for a float'')"
proof -
  have "2 powi 1024 \<le> (of_int (total_commits gi) :: rat) / of_int 10" using assms by simp
  then have "int_truediv (total_commits gi) 10
               = Inl (Error ''integer division result too large for a float'')"
    by (intro int_truediv_overflow) simp_all
  then show ?thesis by (simp add: github_points_def and_then_def)
qed

lemma int_to_float_2: "int_to_float 2 = Inr 2"
  by (simp add: int_to_float_def to_binary64_small_values)

lemma udemy_points_between:
  assumes "score_between 0 (2 powi 1005) sc"
      and "\<forall>ui. u = Some ui \<longrightarrow> 0 \<le> completion_rate ui \<and> completion_rate ui \<le> 100
             \<and> length (categories ui) < 2 ^ 1000"
  shows "\<exists>s. udemy_points sc u = Inr s \<and> score_between 0 (2 powi 1007) s"
proof (cases u)
  case None
  have "score_between 0 (2 powi 1007) sc"
    using assms(1) by (rule score_between_mono) (simp only: pow2_le_iff)
  then show ?thesis by (simp add: udemy_points_def None)
next
  case (Some ui)
  with assms(2) have cr: "0 \<le> completion_rate ui" "completion_rate ui \<le> 100"
    and len: "length (categories ui) < 2 ^ 1000" by simp_all
  have h0: "0 \<le> completion_rate ui / 2" using cr(1) by simp
  have "completion_rate ui / 2 \<le> 50" using cr(2) by simp
  then have h1: "completion_rate ui / 2 \<le> 2 powi 1005"
    using pow2_ge_numeral(2) by (rule order_trans)
  have k1: "- 1074 \<le> (1005::int)" and k2: "(1005::int) < 1024" by simp_all
  note tb = to_binary64_fin [OF h0 h1 k1 k2]
  have hb: "to_binary64 (completion_rate ui / 2) = Fin (fl (completion_rate ui / 2))"
    by (rule tb(1))
  have hn: "0 \<le> fl (completion_rate ui / 2)" by (rule tb(2))
  have hl: "fl (completion_rate ui / 2) \<le> 2 powi 1005" by (rule tb(3))
  have d: "float_div_int (completion_rate ui) 2 = Inr (Fin (fl (completion_rate ui / 2)))"
    by (simp add: float_div_int_def int_to_float_2 and_then_def hb)
  have h: "score_between 0 (2 powi 1005) (PFloat (Fin (fl (completion_rate ui / 2))))"
    using hn hl by (simp only: score_between_Fin)
  from py_add_between [OF assms(1) h] obtain sc1
    where sc1: "py_add sc (PFloat (Fin (fl (completion_rate ui / 2)))) = Inr sc1"
      "score_between 0 (2 powi (1005 + 1)) sc1" by auto
  have "int (length (categories ui)) < 2 ^ 1000"
    using len by (simp add: of_nat_less_iff [symmetric] del: of_nat_less_iff)
  then have "(of_int (int (length (categories ui))) :: rat) < 2 powi (int 1000)"
    by (rule of_int_less_pow2)
  then have "(of_int (int (length (categories ui)) * 3) :: rat) \<le> 2 powi 1006" by simp
  then have l3: "score_between 0 (2 powi 1006) (PInt (int (length (categories ui)) * 3))"
    by (simp add: score_between_PInt)
  have sc1': "score_between 0 (2 powi 1006) sc1" using sc1(2) by simp
  from py_add_between [OF sc1' l3] obtain s
    where "py_add sc1 (PInt (int (length (categories ui)) * 3)) = Inr s"
      "score_between 0 (2 powi (1006 + 1)) s" by auto
  then show ?thesis using d sc1(1) by (simp add: udemy_points_def Some and_then_def)
qed

lemma learning_score_returns:
  assumes "\<forall>gi. g = Some gi \<longrightarrow> 0 \<le> total_commits gi \<and> total_commits gi < 2 ^ 1000
             \<and> length (languages gi) < 2 ^ 1000"
      and "\<forall>ui. u = Some ui \<longrightarrow> 0 \<le> completion_rate ui \<and> completion_rate ui \<le> 100
             \<and> length (categories ui) < 2 ^ 1000"
  shows "\<exists>n. learning_score g u = Inr n \<and> 0 \<le> n \<and> n \<le> 100"
proof -
  have z: "score_between 0 (2 powi 1003) (PInt 0)" by (simp add: score_between_PInt)
  from github_points_between [OF z assms(1)] obtain sc1
    where sc1: "github_points (PInt 0) g = Inr sc1" "score_between 0 (2 powi 1005) sc1" by blast
  from udemy_points_between [OF sc1(2) assms(2)] obtain sc2
    where sc2: "udemy_points sc1 u = Inr sc2" "score_between 0 (2 powi 1007) sc2" by blast
  from py_round_between [OF sc2(2)] obtain r where r: "py_round sc2 = Inr r" "0 \<le> r" by blast
  have "learning_score g u = Inr (min r 100)"
    by (simp add: learning_score_def and_then_def sc1(1) sc2(1) r(1))
  then show ?thesis using r(2) by simp
qed

lemma insights_returned:
  assumes "get_user_learning_insights (Inr activity) (Inr an) = Inr ins"
  shows "recommendations ins =
           cross_platform_recommendations (map_option github_insights activity)
             (map_option udemy_insights an)"
    and "learning_score (map_option github_insights activity) (map_option udemy_insights an)
           = Inr (overall_score ins)"
  using assms
  by (auto simp: get_user_learning_insights_def Let_def split: sum.splits)

lemma insights_of_score:
  assumes "learning_score (map_option github_insights activity) (map_option udemy_insights an)
             = Inr n"
  shows "\<exists>ins. get_user_learning_insights (Inr activity) (Inr an) = Inr ins
           \<and> overall_score ins = n
           \<and> recommendations ins =
               cross_platform_recommendations (map_option github_insights activity)
                 (map_option udemy_insights an)"
  using assms by (simp add: get_user_learning_insights_def Let_def)

section \<open>Recommendations and score of the insights\<close>

text \<open>
  Claim C2.  With 100 commits and 3 languages on GitHub, and a completion rate of 80 with
  2 categories on Udemy, the GitHub part of the score is 25, the Udemy part is 46, and
  \<open>get_user_learning_insights\<close> reports the overall score 71.
\<close>

theorem learning_score_example:
  assumes "act_total_commits activity = 100" and "length (act_languages_used activity) = 3"
      and "an_completion_rate an = 80" and "length (an_categories an) = 2"
  shows "github_points (PInt 0) (Some (github_insights activity)) = Inr (PFloat (Fin 25))
       \<and> udemy_points (PInt 0) (Some (udemy_insights an)) = Inr (PFloat (Fin 46))
       \<and> (\<exists>ins. get_user_learning_insights (Inr (Some activity)) (Inr (Some an)) = Inr ins
              \<and> overall_score ins = 71)"
  using assms
  by (simp add: get_user_learning_insights_def learning_score_def github_points_def
      udemy_points_def github_insights_def udemy_insights_def py_min2_def int_truediv_def
      int_to_float_def float_div_int_def and_then_def to_binary64_small_values
      fl_small_values Let_def)

theorem learning_score_example_witness:
  "act_total_commits
     \<lparr>act_total_commits = 100, act_active_repos = [''app''],
      act_languages_used = [(''Python'', 2), (''Go'', 1), (''Rust'', 1)],
      act_recent_commits = []\<rparr> = 100
   \<and> length (act_languages_used
     \<lparr>act_total_commits = 100, act_active_repos = [''app''],
      act_languages_used = [(''Python'', 2), (''Go'', 1), (''Rust'', 1)],
      act_recent_commits = []\<rparr>) = 3
   \<and> an_completion_rate
     \<lparr>an_completion_rate = 80, an_total_courses = 5, an_completed_learning_hours = 12,
      an_categories = [(''Development'', 3), (''Design'', 2)]\<rparr> = 80
   \<and> length (an_categories
     \<lparr>an_completion_rate = 80, an_total_courses = 5, an_completed_learning_hours = 12,
      an_categories = [(''Development'', 3), (''Design'', 2)]\<rparr>) = 2
   \<and> (\<exists>ins. get_user_learning_insights
        (Inr (Some \<lparr>act_total_commits = 100, act_active_repos = [''app''],
                    act_languages_used = [(''Python'', 2), (''Go'', 1), (''Rust'', 1)],
                    act_recent_commits = []\<rparr>))
        (Inr (Some \<lparr>an_completion_rate = 80, an_total_courses = 5,
                    an_completed_learning_hours = 12,
                    an_categories = [(''Development'', 3), (''Design'', 2)]\<rparr>)) = Inr ins
        \<and> overall_score ins = 71)"
  using learning_score_example
    [of "\<lparr>act_total_commits = 100, act_active_repos = [''app''],
          act_languages_used = [(''Python'', 2), (''Go'', 1), (''Rust'', 1)],
          act_recent_commits = []\<rparr>"
        "\<lparr>an_completion_rate = 80, an_total_courses = 5, an_completed_learning_hours = 12,
          an_categories = [(''Development'', 3), (''Design'', 2)]\<rparr>"]
  by simp

text \<open>
  Claim C3.  When both platforms are connected, Python is among the GitHub languages and
  Data Science is not among the Udemy categories, the recommendations contain the
  data-science course suggestion exactly once: in the list that the recommendation block
  builds, and in the insights of every successful return of \<open>get_user_learning_insights\<close>.
  The function does return such insights when the commit total is not negative and below
  \<open>2 ^ 1000\<close>, the completion rate is between 0 and 100 and the two tables have fewer than
  \<open>2 ^ 1000\<close> rows, so that the score arithmetic after the block does not raise.
\<close>

theorem data_science_suggested_once:
  assumes "''Python'' \<in> set (map fst (act_languages_used activity))"
      and "''Data Science'' \<notin> set (map fst (an_categories an))"
  shows "count_list
           (cross_platform_recommendations (Some (github_insights activity))
              (Some (udemy_insights an)))
           data_science_suggestion = 1
       \<and> (\<forall>ins. get_user_learning_insights (Inr (Some activity)) (Inr (Some an)) = Inr ins
             \<longrightarrow> count_list (recommendations ins) data_science_suggestion = 1)
       \<and> (0 \<le> act_total_commits activity \<and> act_total_commits activity < 2 ^ 1000
            \<and> length (act_languages_used activity) < 2 ^ 1000
            \<and> 0 \<le> an_completion_rate an \<and> an_completion_rate an \<le> 100
            \<and> length (an_categories an) < 2 ^ 1000
          \<longrightarrow> (\<exists>ins. get_user_learning_insights (Inr (Some activity)) (Inr (Some an)) = Inr ins
                 \<and> count_list (recommendations ins) data_science_suggestion = 1))"
proof -
  let ?g = "Some (github_insights activity)"
  let ?u = "Some (udemy_insights an)"
  have block: "count_list (cross_platform_recommendations ?g ?u) data_science_suggestion = 1"
    using assms
    by (simp add: cross_platform_recommendations_def github_insights_def udemy_insights_def
        data_science_suggestion_def devops_suggestion_def Let_def)
  have ret: "count_list (recommendations ins) data_science_suggestion = 1"
    if "get_user_learning_insights (Inr (Some activity)) (Inr (Some an)) = Inr ins" for ins
    using insights_returned(1) [OF that] block by simp
  have ex: "\<exists>ins. get_user_learning_insights (Inr (Some activity)) (Inr (Some an)) = Inr ins"
    if b: "0 \<le> act_total_commits activity \<and> act_total_commits activity < 2 ^ 1000
            \<and> length (act_languages_used activity) < 2 ^ 1000
            \<and> 0 \<le> an_completion_rate an \<and> an_completion_rate an \<le> 100
            \<and> length (an_categories an) < 2 ^ 1000"
  proof -
    have g: "\<forall>gi. map_option github_insights (Some activity) = Some gi \<longrightarrow>
               0 \<le> total_commits gi \<and> total_commits gi < 2 ^ 1000
               \<and> length (languages gi) < 2 ^ 1000"
      using b by (auto simp: github_insights_def)
    have u: "\<forall>ui. map_option udemy_insights (Some an) = Some ui \<longrightarrow>
               0 \<le> completion_rate ui \<and> completion_rate ui \<le> 100
               \<and> length (categories ui) < 2 ^ 1000"
      using b by (auto simp: udemy_insights_def)
    from learning_score_returns [OF g u] obtain n
      where "learning_score (map_option github_insights (Some activity))
               (map_option udemy_insights (Some an)) = Inr n" by blast
    from insights_of_score [OF this] show ?thesis by blast
  qed
  from block ret ex show ?thesis by blast
qed

theorem data_science_suggested_once_witness:
  "''Python'' \<in> set (map fst (act_languages_used
       \<lparr>act_total_commits = 60, act_active_repos = [''app''],
        act_languages_used = [(''Python'', 1)], act_recent_commits = []\<rparr>))
   \<and> ''Data Science'' \<notin> set (map fst (an_categories
       \<lparr>an_completion_rate = 80, an_total_courses = 1, an_completed_learning_hours = 2,
        an_categories = []\<rparr>))
   \<and> count_list
        (cross_platform_recommendations
           (Some (github_insights \<lparr>act_total_commits = 60, act_active_repos = [''app''],
                    act_languages_used = [(''Python'', 1)], act_recent_commits = []\<rparr>))
           (Some (udemy_insights \<lparr>an_completion_rate = 80, an_total_courses = 1,
                    an_completed_learning_hours = 2, an_categories = []\<rparr>)))
        data_science_suggestion = 1
   \<and> (\<exists>ins. get_user_learning_insights
        (Inr (Some \<lparr>act_total_commits = 60, act_active_repos = [''app''],
                    act_languages_used = [(''Python'', 1)], act_recent_commits = []\<rparr>))
        (Inr (Some \<lparr>an_completion_rate = 80, an_total_courses = 1,
                    an_completed_learning_hours = 2, an_categories = []\<rparr>)) = Inr ins
        \<and> count_list (recommendations ins) data_science_suggestion = 1)"
proof -
  let ?act = "\<lparr>act_total_commits = 60, act_active_repos = [''app''],
               act_languages_used = [(''Python'', 1)], act_recent_commits = []\<rparr>"
  let ?an = "\<lparr>an_completion_rate = 80, an_total_courses = 1,
              an_completed_learning_hours = 2, an_categories = []\<rparr>"
  have h1: "''Python'' \<in> set (map fst (act_languages_used ?act))" by simp
  have h2: "''Data Science'' \<notin> set (map fst (an_categories ?an))" by simp
  have b: "0 \<le> act_total_commits ?act \<and> act_total_commits ?act < 2 ^ 1000
            \<and> length (act_languages_used ?act) < 2 ^ 1000
            \<and> 0 \<le> an_completion_rate ?an \<and> an_completion_rate ?an \<le> 100
            \<and> length (an_categories ?an) < 2 ^ 1000" by simp
  note t = data_science_suggested_once [OF h1 h2]
  from t b obtain ins
    where i: "get_user_learning_insights (Inr (Some ?act)) (Inr (Some ?an)) = Inr ins"
      and c: "count_list (recommendations ins) data_science_suggestion = 1" by blast
  with h1 h2 t show ?thesis by blast
qed

section \<open>The fallback of the plan generation\<close>

text \<open>
  Claim C7.  When the text returned by the generative service does not parse as JSON,
  \<open>generate_plan_with_groq\<close> still reports success, with a plan whose \<open>overview\<close> is the
  raw text and whose \<open>modules\<close> and \<open>milestones\<close> are empty lists.
\<close>

theorem generate_plan_non_json_fallback:
  assumes "json_loads txt = None"
  shows "\<exists>d. generate_plan_with_groq json_loads (Inr txt) subject learning_goal current_level
               time_commitment additional_context = (True, JObj d)
           \<and> map_of d ''overview'' = Some (JStr txt)
           \<and> map_of d ''modules'' = Some (JArr [])
           \<and> map_of d ''milestones'' = Some (JArr [])"
  using assms
  by (simp add: generate_plan_with_groq_def parse_plan_def fallback_plan_def Let_def)

theorem generate_plan_non_json_fallback_witness:
  "(\<lambda>s. if s = ''{}'' then Some (JObj []) else None) ''# Roadmap'' = None
   \<and> (\<exists>d. generate_plan_with_groq (\<lambda>s. if s = ''{}'' then Some (JObj []) else None)
              (Inr ''# Roadmap'') ''SQL'' ''Learn joins'' ''Beginner'' ''2 hours'' []
            = (True, JObj d)
         \<and> map_of d ''overview'' = Some (JStr ''# Roadmap'')
         \<and> map_of d ''modules'' = Some (JArr [])
         \<and> map_of d ''milestones'' = Some (JArr []))"
proof -
  have h: "(\<lambda>s. if s = ''{}'' then Some (JObj []) else None) ''# Roadmap'' = None" by simp
  from h generate_plan_non_json_fallback
    [of "\<lambda>s. if s = ''{}'' then Some (JObj []) else None" "''# Roadmap''",
     OF h, of "''SQL''" "''Learn joins''" "''Beginner''" "''2 hours''" "[]"]
  show ?thesis by blast
qed

section \<open>Bounds on sums and means of percentages\<close>

lemma float_of_int_nonneg: "0 \<le> n \<Longrightarrow> 0 \<le> float_of_int n"
  by (simp add: float_of_int_def fl_nonneg)

lemma float_of_int_exact: "0 \<le> n \<Longrightarrow> n < 2 ^ 53 \<Longrightarrow> float_of_int n = of_int n"
  by (simp add: float_of_int_def fl_of_int)

lemma float_of_int_pos:
  assumes "1 \<le> n"
  shows "1 \<le> float_of_int n"
proof -
  have "fl 1 \<le> fl (of_int n)" using assms by (intro fl_mono) simp_all
  then show ?thesis by (simp add: float_of_int_def fl_small_values)
qed

lemma fl_le_100: "0 \<le> x \<Longrightarrow> x \<le> 100 \<Longrightarrow> fl x \<le> 100"
  using fl_mono [of x 100] by (simp add: fl_small_values)

lemma quiz_percentage_range:
  assumes "0 \<le> sc" and "sc \<le> tq" and "quiz_percentage sc tq = Some p"
  shows "0 \<le> p" and "p \<le> 100"
proof -
  from assms(3) have tq0: "tq \<noteq> 0"
    by (auto simp: quiz_percentage_def int_truediv_def split: if_splits)
  with assms have tq: "0 < tq" by simp
  define r where "r = fl (of_int sc / of_int tq)"
  have q0: "(0::rat) \<le> of_int sc / of_int tq" using assms(1) tq by simp
  have q1: "(of_int sc :: rat) / of_int tq \<le> 1" using assms(2) tq by simp
  then have q2: "(of_int sc :: rat) / of_int tq \<le> 2 powi 0" by simp
  have k1: "- 1074 \<le> (0::int)" and k2: "(0::int) < 1024" by simp_all
  have "to_binary64 (of_int sc / of_int tq) = Fin r"
    unfolding r_def using q0 q2 k1 k2 by (rule to_binary64_fin(1))
  then have p: "p = fl (r * 100)"
    using assms(3) tq0
    by (auto simp: quiz_percentage_def int_truediv_def fmul_def float_of_int_def fl_small_values)
  have r0: "0 \<le> r" unfolding r_def using q0 by (rule fl_nonneg)
  have "r \<le> fl 1" unfolding r_def using q0 q1 by (rule fl_mono)
  then have r1: "r \<le> 1" by (simp add: fl_small_values)
  show "0 \<le> p" unfolding p using r0 by (intro fl_nonneg) simp
  show "p \<le> 100" unfolding p using r0 r1 by (intro fl_le_100) simp_all
qed

text \<open>
  Adding percentages from left to right: while \<open>100 * k\<close> is below \<open>2 ^ 53\<close> it is a
  binary64 number, so the rounded sum of \<open>k\<close> percentages cannot pass it.
\<close>

lemma foldl_fadd_range:
  assumes "\<forall>x\<in>set xs. 0 \<le> x \<and> x \<le> 100"
      and "0 \<le> s" and "s \<le> 100 * of_nat k"
      and "100 * (k + length xs) < 2 ^ 53"
  shows "0 \<le> foldl fadd s xs \<and> foldl fadd s xs \<le> 100 * of_nat (k + length xs)"
  using assms
proof (induction xs arbitrary: s k)
  case Nil
  then show ?case by simp
next
  case (Cons x xs)
  have x: "0 \<le> x" "x \<le> 100" using Cons.prems(1) by simp_all
  have nn: "0 \<le> fadd s x" unfolding fadd_def using x(1) Cons.prems(2) by (intro fl_nonneg) simp
  have b: "100 * int (Suc k) < 2 ^ 53" using Cons.prems(4) by simp
  have "s + x \<le> of_int (100 * int (Suc k))" using x(2) Cons.prems(3) by simp
  moreover have "0 \<le> s + x" using x(1) Cons.prems(2) by simp
  ultimately have "fl (s + x) \<le> fl (of_int (100 * int (Suc k)))" by (intro fl_mono)
  also have "\<dots> = of_int (100 * int (Suc k))" using b by (intro fl_of_int) simp_all
  finally have le: "fadd s x \<le> 100 * of_nat (Suc k)" by (simp add: fadd_def)
  have "0 \<le> foldl fadd (fadd s x) xs
       \<and> foldl fadd (fadd s x) xs \<le> 100 * of_nat (Suc k + length xs)"
    using Cons.prems(1,4) nn le by (intro Cons.IH) simp_all
  then show ?case by simp
qed

lemma mean_defined:
  assumes "xs \<noteq> []"
  shows "mean xs = Some (fl (py_sum xs / float_of_int (int (length xs))))"
proof -
  have "1 \<le> int (length xs)" using assms by (cases xs) simp_all
  then have "1 \<le> float_of_int (int (length xs))" by (rule float_of_int_pos)
  then show ?thesis by (simp add: mean_def fdiv_def)
qed

lemma mean_range:
  assumes "xs \<noteq> []" and "\<forall>x\<in>set xs. 0 \<le> x \<and> x \<le> 100" and "length xs < 2 ^ 46"
  shows "\<exists>a. mean xs = Some a \<and> 0 \<le> a \<and> a \<le> 100"
proof -
  define n where "n = length xs"
  have n1: "1 \<le> n" using assms(1) by (cases xs) (simp_all add: n_def)
  have "100 * n < 100 * 2 ^ 46" using assms(3) by (simp add: n_def)
  also have "\<dots> < (2::nat) ^ 53" by simp
  finally have b: "100 * (0 + length xs) < 2 ^ 53" by (simp add: n_def)
  have s: "0 \<le> py_sum xs \<and> py_sum xs \<le> 100 * of_nat (0 + length xs)"
    unfolding py_sum_def using assms(2) b by (intro foldl_fadd_range) simp_all
  have "int n < 2 ^ 53" using b by (simp add: n_def)
  then have fn: "float_of_int (int n) = of_nat n"
    using float_of_int_exact [of "int n"] by simp
  have npos: "(0::rat) < of_nat n" using n1 by simp
  have q0: "0 \<le> py_sum xs / of_nat n" using s npos by simp
  have q1: "py_sum xs / of_nat n \<le> 100"
    using s npos by (simp add: n_def pos_divide_le_eq)
  have "mean xs = Some (fl (py_sum xs / of_nat n))"
    using mean_defined [OF assms(1)] fn by (simp add: n_def)
  moreover have "0 \<le> fl (py_sum xs / of_nat n)" using q0 by (rule fl_nonneg)
  moreover have "fl (py_sum xs / of_nat n) \<le> 100" using q0 q1 by (rule fl_le_100)
  ultimately show ?thesis by simp
qed

text \<open>The mean of one or two floats is exact enough to stay between them.\<close>

lemma mean_one:
  assumes "is_double x"
  shows "mean [x] = Some x"
  using assms
  by (simp add: mean_defined py_sum_def fadd_def float_of_int_def fl_small_values is_double_def)

lemma mean_two:
  assumes "is_double x" and "is_double y" and "0 \<le> x" and "x \<le> y"
  shows "\<exists>a. mean [x, y] = Some a \<and> mean [y, x] = Some a \<and> x \<le> a \<and> a \<le> y"
proof -
  have y0: "0 \<le> y" using assms by simp
  define s where "s = fl (x + y)"
  have "fl (2 * x) \<le> fl (x + y)" using assms by (intro fl_mono) simp_all
  then have lo: "2 * x \<le> s" using fl_twice [OF assms(1,3)] by (simp add: s_def)
  have "fl (x + y) \<le> fl (2 * y)" using assms by (intro fl_mono) simp_all
  then have hi: "s \<le> 2 * y" using fl_twice [OF assms(2) y0] by (simp add: s_def)
  have "fl x \<le> fl (s / 2)" using lo assms(3) by (intro fl_mono) simp_all
  then have a: "x \<le> fl (s / 2)" using assms(1) by (simp add: is_double_def)
  have "0 \<le> s / 2" using lo assms(3) by simp
  then have "fl (s / 2) \<le> fl y" using hi by (intro fl_mono) simp_all
  then have b: "fl (s / 2) \<le> y" using assms(2) by (simp add: is_double_def)
  have "mean [x, y] = Some (fl (s / 2))"
    using assms(1)
    by (simp add: mean_defined py_sum_def fadd_def float_of_int_def fl_small_values
        is_double_def s_def)
  moreover have "mean [y, x] = Some (fl (s / 2))"
    using assms(2)
    by (simp add: mean_defined py_sum_def fadd_def float_of_int_def fl_small_values
        is_double_def s_def add.commute)
  ultimately show ?thesis using a b by simp
qed

lemma py_min_le: "py_min m xs \<le> m"
  unfolding py_min_def
proof (induction xs arbitrary: m)
  case Nil
  then show ?case by simp
next
  case (Cons y ys)
  have "foldl (\<lambda>m y. if y < m then y else m) (if y < m then y else m) ys \<le> (if y < m then y else m)"
    by (rule Cons.IH)
  then show ?case by (auto split: if_splits)
qed

lemma py_max_ge: "m \<le> py_max m xs"
  unfolding py_max_def
proof (induction xs arbitrary: m)
  case Nil
  then show ?case by simp
next
  case (Cons y ys)
  have "(if m < y then y else m) \<le> foldl (\<lambda>m y. if m < y then y else m) (if m < y then y else m) ys"
    by (rule Cons.IH)
  then show ?case by (auto split: if_splits)
qed

section \<open>The average score of the summary\<close>

lemma append_score_nonempty:
  "\<forall>(t, scs)\<in>set d. scs \<noteq> [] \<Longrightarrow> \<forall>(t, scs)\<in>set (append_score d tp p). scs \<noteq> []"
  by (induction d tp p rule: append_score.induct) auto

lemma foldl_append_score_nonempty:
  "\<forall>(t, scs)\<in>set d. scs \<noteq> [] \<Longrightarrow>
   \<forall>(t, scs)\<in>set (foldl (\<lambda>d quiz. append_score d (get_topic quiz) (get_percentage quiz)) d qs).
      scs \<noteq> []"
proof (induction qs arbitrary: d)
  case Nil
  then show ?case by simp
next
  case (Cons q qs)
  show ?case
    unfolding foldl_Cons
    by (rule Cons.IH) (rule append_score_nonempty [OF Cons.prems])
qed

lemma topic_averages_defined:
  "\<forall>(t, scs)\<in>set d. scs \<noteq> [] \<Longrightarrow> topic_averages d \<noteq> None"
  by (induction d rule: topic_averages.induct) (auto simp: mean_defined split: option.splits)

text \<open>On a non-empty history no division raises: the summary is returned.\<close>

lemma get_user_analytics_average:
  assumes "quiz_list \<noteq> []"
  shows "\<exists>a. get_user_analytics (Inr quiz_list) = Some a
           \<and> mean (map get_percentage quiz_list) = Some (average_score a)
           \<and> total_quizzes a = length quiz_list"
proof -
  have "\<forall>(t, scs)\<in>set (topic_scores quiz_list). scs \<noteq> []"
    unfolding topic_scores_def by (rule foldl_append_score_nonempty) simp
  then have "topic_averages (topic_scores quiz_list) \<noteq> None" by (rule topic_averages_defined)
  moreover have "mean (map get_percentage quiz_list) \<noteq> None"
    using assms by (simp add: mean_defined)
  ultimately show ?thesis using assms by (auto simp: get_user_analytics_def Let_def)
qed

text \<open>
  Claim C9.  For a non-empty quiz history in which every record was written by
  \<open>save_quiz_score\<close> with \<open>0 \<le> score \<le> total_questions\<close>, \<open>get_user_analytics\<close> returns a
  summary whose \<open>average_score\<close> lies between 0 and 100.  The history has fewer than
  \<open>2 ^ 46\<close> records: up to there \<open>100 * len\<close> is a binary64 number, which bounds the
  rounded sum.
\<close>

theorem average_score_range:
  assumes "quiz_list \<noteq> []"
      and "\<forall>q\<in>set quiz_list. \<exists>now tp sc tq.
             0 \<le> sc \<and> sc \<le> tq \<and> save_quiz_score now tp sc tq = Some q"
      and "length quiz_list < 2 ^ 46"
  shows "\<exists>a. get_user_analytics (Inr quiz_list) = Some a
           \<and> 0 \<le> average_score a \<and> average_score a \<le> 100"
proof -
  have r: "\<forall>x\<in>set (map get_percentage quiz_list). 0 \<le> x \<and> x \<le> 100"
  proof
    fix x assume "x \<in> set (map get_percentage quiz_list)"
    then obtain q where q: "q \<in> set quiz_list" and x: "x = get_percentage q" by auto
    from assms(2) q obtain now tp sc tq
      where sc: "0 \<le> sc" "sc \<le> tq" and s: "save_quiz_score now tp sc tq = Some q" by blast
    from s obtain p where p: "quiz_percentage sc tq = Some p" and qp: "percentage q = Some p"
      by (auto simp: save_quiz_score_def)
    from quiz_percentage_range [OF sc p] x qp show "0 \<le> x \<and> x \<le> 100"
      by (simp add: get_percentage_def)
  qed
  from mean_range [OF _ r] assms(1,3)
  obtain m where m: "mean (map get_percentage quiz_list) = Some m" "0 \<le> m" "m \<le> 100" by auto
  from get_user_analytics_average [OF assms(1)] m show ?thesis by auto
qed

lemma save_quiz_score_examples:
  "save_quiz_score \<lparr>ts_date = 739558, ts_nanos = 0\<rparr> ''Python'' 4 5 =
     Some \<lparr>topic = Some ''Python'', score = Some 4, total_questions = Some 5,
           percentage = Some 80, completed_at = Some \<lparr>ts_date = 739558, ts_nanos = 0\<rparr>\<rparr>"
  "save_quiz_score \<lparr>ts_date = 739557, ts_nanos = 0\<rparr> ''SQL'' 1 3 =
     Some \<lparr>topic = Some ''SQL'', score = Some 1, total_questions = Some 3,
           percentage = Some (2345624805922133 / 70368744177664),
           completed_at = Some \<lparr>ts_date = 739557, ts_nanos = 0\<rparr>\<rparr>"
  by code_simp+

theorem average_score_range_witness:
  "save_quiz_score \<lparr>ts_date = 739558, ts_nanos = 0\<rparr> ''Python'' 4 5 =
     Some \<lparr>topic = Some ''Python'', score = Some 4, total_questions = Some 5,
           percentage = Some 80, completed_at = Some \<lparr>ts_date = 739558, ts_nanos = 0\<rparr>\<rparr>
   \<and> save_quiz_score \<lparr>ts_date = 739557, ts_nanos = 0\<rparr> ''SQL'' 1 3 =
     Some \<lparr>topic = Some ''SQL'', score = Some 1, total_questions = Some 3,
           percentage = Some (2345624805922133 / 70368744177664),
           completed_at = Some \<lparr>ts_date = 739557, ts_nanos = 0\<rparr>\<rparr>
   \<and> length
        [\<lparr>topic = Some ''Python'', score = Some 4, total_questions = Some 5,
          percentage = Some 80, completed_at = Some \<lparr>ts_date = 739558, ts_nanos = 0\<rparr>\<rparr>,
         \<lparr>topic = Some ''SQL'', score = Some 1, total_questions = Some 3,
          percentage = Some (2345624805922133 / 70368744177664),
          completed_at = Some \<lparr>ts_date = 739557, ts_nanos = 0\<rparr>\<rparr>] < 2 ^ 46
   \<and> (\<exists>a. get_user_analytics (Inr
        [\<lparr>topic = Some ''Python'', score = Some 4, total_questions = Some 5,
          percentage = Some 80, completed_at = Some \<lparr>ts_date = 739558, ts_nanos = 0\<rparr>\<rparr>,
         \<lparr>topic = Some ''SQL'', score = Some 1, total_questions = Some 3,
          percentage = Some (2345624805922133 / 70368744177664),
          completed_at = Some \<lparr>ts_date = 739557, ts_nanos = 0\<rparr>\<rparr>]) = Some a
        \<and> 0 \<le> average_score a \<and> average_score a \<le> 100)"
proof -
  let ?d1 = "\<lparr>topic = Some ''Python'', score = Some 4, total_questions = Some 5,
      percentage = Some 80, completed_at = Some \<lparr>ts_date = 739558, ts_nanos = 0\<rparr>\<rparr>"
  let ?d2 = "\<lparr>topic = Some ''SQL'', score = Some 1, total_questions = Some 3,
      percentage = Some (2345624805922133 / 70368744177664),
      completed_at = Some \<lparr>ts_date = 739557, ts_nanos = 0\<rparr>\<rparr>"
  have h1: "[?d1, ?d2] \<noteq> []" by simp
  have e1: "\<exists>now tp sc tq. 0 \<le> sc \<and> sc \<le> tq \<and> save_quiz_score now tp sc tq = Some ?d1"
    using save_quiz_score_examples(1) by (intro exI [of _ 4] exI [of _ 5] exI) auto
  have e2: "\<exists>now tp sc tq. 0 \<le> sc \<and> sc \<le> tq \<and> save_quiz_score now tp sc tq = Some ?d2"
    using save_quiz_score_examples(2) by (intro exI [of _ 1] exI [of _ 3] exI) auto
  have h2: "\<forall>q\<in>set [?d1, ?d2]. \<exists>now tp sc tq.
              0 \<le> sc \<and> sc \<le> tq \<and> save_quiz_score now tp sc tq = Some q"
    using e1 e2 by simp
  have h3: "length [?d1, ?d2] < 2 ^ 46" by simp
  from save_quiz_score_examples h3 average_score_range [OF h1 h2 h3] show ?thesis by blast
qed

section \<open>The score of the insights is between 0 and 100\<close>



text \<open>
  With \<open>10 ^ 310\<close> commits the division \<open>total_commits / 10\<close> raises, the handler of
  \<open>get_user_learning_insights\<close> catches it and the function returns the message in place
  of the insights.
\<close>

lemma score_overflow_example:
  "get_user_learning_insights
     (Inr (Some \<lparr>act_total_commits = 10 ^ 310, act_active_repos = [],
                 act_languages_used = [], act_recent_commits = []\<rparr>))
     (Inr None)
   = Inl (Error ''integer division result too large for a float'')"
proof -
  let ?gi = "github_insights \<lparr>act_total_commits = 10 ^ 310, act_active_repos = [],
                 act_languages_used = [], act_recent_commits = []\<rparr>"
  have "2 powi 1024 * 10 \<le> (of_int (total_commits ?gi) :: rat)"
    by (simp add: github_insights_def)
  then have "github_points (PInt 0) (Some ?gi)
               = Inl (Error ''integer division result too large for a float'')"
    by (rule github_points_overflow)
  then show ?thesis
    by (simp add: get_user_learning_insights_def learning_score_def and_then_def Let_def)
qed

section \<open>The aggregates of a topic\<close>

lemma add_topic_score_ok:
  assumes "\<forall>e\<in>set d. entry_ok S e" and "p \<in> S"
  shows "\<forall>e\<in>set (add_topic_score d tp p). entry_ok S e"
  using assms by (induction d tp p rule: add_topic_score.induct) (auto simp: entry_ok_def)

lemma foldl_add_topic_score_ok:
  assumes "\<forall>e\<in>set d. entry_ok S e" and "get_percentage ` set qs \<subseteq> S"
  shows "\<forall>e\<in>set (foldl (\<lambda>d sc. add_topic_score d (get_topic sc) (get_percentage sc)) d qs).
           entry_ok S e"
  using assms
proof (induction qs arbitrary: d)
  case Nil
  then show ?case by simp
next
  case (Cons q qs)
  have "\<forall>e\<in>set (add_topic_score d (get_topic q) (get_percentage q)). entry_ok S e"
    using Cons.prems by (intro add_topic_score_ok) simp_all
  then show ?case unfolding foldl_Cons using Cons.prems(2) by (intro Cons.IH) simp_all
qed

lemma topic_data_ok: "\<forall>e\<in>set (topic_data docs). entry_ok (get_percentage ` set docs) e"
  unfolding topic_data_def by (rule foldl_add_topic_score_ok) simp_all

lemma calculate_averages_entries:
  assumes "calculate_averages d = Some r" and "(t, a) \<in> set r"
  shows "\<exists>e. (t, e) \<in> set d \<and> topic_aggregates e = Some a"
  using assms
proof (induction d arbitrary: r)
  case Nil
  then show ?case by simp
next
  case (Cons te d)
  obtain t' e' where te: "te = (t', e')" by (cases te)
  from Cons.prems(1) obtain a' r' where a': "topic_aggregates e' = Some a'"
    and r': "calculate_averages d = Some r'" and r: "r = (t', a') # r'"
    by (auto simp: te split: option.splits)
  show ?case
  proof (cases "(t, a) = (t', a')")
    case True
    with a' show ?thesis by (intro exI [of _ e']) (simp add: te)
  next
    case False
    with Cons.prems(2) r have "(t, a) \<in> set r'" by auto
    from Cons.IH [OF r' this] obtain e where "(t, e) \<in> set d" "topic_aggregates e = Some a"
      by blast
    then show ?thesis by (intro exI [of _ e]) simp
  qed
qed

lemma topic_aggregates_defined: "topic_aggregates e \<noteq> None"
  by (cases e rule: topic_aggregates.cases) (simp_all add: mean_defined)

lemma calculate_averages_defined:
  "\<exists>r. calculate_averages d = Some r \<and> length r = length d"
  by (induction d rule: calculate_averages.induct)
     (auto simp: topic_aggregates_defined split: option.splits)

text \<open>
  The rounded sum of \<open>n\<close> percentages is within \<open>n * (100 * n + 1) / 2 ^ 53\<close> of the exact
  sum, and the rounded quotient within \<open>101 / 2 ^ 53\<close> of the exact quotient: the mean is
  within \<open>(n + 1) / 2 ^ 46\<close> of the interval that holds the items.
\<close>

lemma rne_err: "\<bar>of_int (rne y) - y\<bar> \<le> 1 / 2"
proof -
  define f where "f = \<lfloor>y\<rfloor>"
  define d where "d = y - of_int f"
  have d0: "0 \<le> d" and d1: "d < 1" unfolding d_def f_def by linarith+
  have y: "y = of_int f + d" by (simp add: d_def)
  have r: "rne y = (if d < 1 / 2 then f else if 1 / 2 < d then f + 1
                    else if even f then f else f + 1)"
    by (simp add: rne_def Let_def f_def d_def)
  have "of_int (rne y) - y = of_int (rne y) - of_int f - d" by (simp add: d_def)
  then show ?thesis using d0 d1 by (auto simp: r abs_if)
qed

lemma ulp_le:
  assumes "0 < x"
  shows "ulp x \<le> (x + 1) / 2 ^ 52"
proof (cases "- 1022 \<le> ilog2 x")
  case True
  then have "ulp x = 2 powi (ilog2 x - 52)" by (simp add: ulp_def max_def)
  also have "\<dots> = 2 powi (ilog2 x) / 2 ^ 52" by (simp add: power_int_diff)
  also have "\<dots> \<le> x / 2 ^ 52"
    using ilog2_bounds(1) [of x] assms by (simp add: divide_right_mono)
  also have "\<dots> \<le> (x + 1) / 2 ^ 52" by (simp add: divide_right_mono)
  finally show ?thesis .
next
  case False
  then have "ulp x = 2 powi (- 1074)" by (simp add: ulp_def max_def)
  also have "\<dots> \<le> (1::rat) / 2 ^ 52" by (simp add: power_int_minus field_simps)
  also have "\<dots> \<le> (x + 1) / 2 ^ 52" using assms by (simp add: divide_right_mono)
  finally show ?thesis .
qed

lemma fl_err:
  assumes "0 \<le> x"
  shows "\<bar>fl x - x\<bar> \<le> (x + 1) / 2 ^ 53"
proof (cases "x = 0")
  case True
  then show ?thesis by (simp add: fl_def)
next
  case False
  with assms have xpos: "0 < x" by simp
  define u where "u = ulp x"
  have upos: "0 < u" unfolding u_def by (rule ulp_pos)
  have "fl x - x = (of_int (rne (x / u)) - x / u) * u"
    using False upos by (simp add: fl_def u_def left_diff_distrib)
  then have "\<bar>fl x - x\<bar> = \<bar>of_int (rne (x / u)) - x / u\<bar> * u"
    using upos by (simp add: abs_mult)
  also have "\<dots> \<le> (1 / 2) * u"
    using rne_err [of "x / u"] upos by (intro mult_right_mono) simp_all
  also have "\<dots> \<le> (1 / 2) * ((x + 1) / 2 ^ 52)"
    using ulp_le [OF xpos] by (simp add: u_def)
  also have "\<dots> = (x + 1) / 2 ^ 53" by simp
  finally show ?thesis .
qed

lemma foldl_fadd_err:
  assumes "\<forall>x\<in>set xs. 0 \<le> x \<and> x \<le> 100"
      and "0 \<le> s" and "s \<le> 100 * of_nat k"
      and "100 * (k + length xs) < 2 ^ 53" and "k + length xs \<le> n"
  shows "\<bar>foldl fadd s xs - (s + sum_list xs)\<bar>
           \<le> of_nat (length xs) * ((100 * of_nat n + 1) / 2 ^ 53)"
  using assms
proof (induction xs arbitrary: s k)
  case Nil
  then show ?case by simp
next
  case (Cons x xs)
  define e :: rat where "e = (100 * of_nat n + 1) / 2 ^ 53"
  have x: "0 \<le> x" "x \<le> 100" using Cons.prems(1) by simp_all
  have sx0: "0 \<le> s + x" using x(1) Cons.prems(2) by simp
  have "s + x \<le> 100 * of_nat k + 100" using x(2) Cons.prems(3) by simp
  also have "\<dots> = 100 * of_nat (Suc k)" by simp
  also have "\<dots> \<le> 100 * of_nat n"
    using Cons.prems(5) by (simp only: mult_le_cancel_left_pos of_nat_le_iff) simp
  finally have sxn: "s + x \<le> 100 * of_nat n" .
  have "\<bar>fl (s + x) - (s + x)\<bar> \<le> (s + x + 1) / 2 ^ 53" using sx0 by (rule fl_err)
  also have "\<dots> \<le> e" unfolding e_def using sxn by (simp add: divide_right_mono)
  finally have step: "\<bar>fadd s x - (s + x)\<bar> \<le> e" by (simp add: fadd_def)
  have b1: "100 * (k + length [x]) < 2 ^ 53" using Cons.prems(4) by simp
  have one: "\<forall>y\<in>set [x]. 0 \<le> y \<and> y \<le> 100" using x by simp
  from foldl_fadd_range [OF one Cons.prems(2,3) b1]
  have r: "0 \<le> fadd s x" "fadd s x \<le> 100 * of_nat (Suc k)" by simp_all
  have all: "\<forall>y\<in>set xs. 0 \<le> y \<and> y \<le> 100" using Cons.prems(1) by simp
  have b2: "100 * (Suc k + length xs) < 2 ^ 53" using Cons.prems(4) by simp
  have b3: "Suc k + length xs \<le> n" using Cons.prems(5) by simp
  from Cons.IH [OF all r b2 b3]
  have ih: "\<bar>foldl fadd (fadd s x) xs - (fadd s x + sum_list xs)\<bar> \<le> of_nat (length xs) * e"
    by (simp only: e_def)
  have "\<bar>foldl fadd (fadd s x) xs - (s + x + sum_list xs)\<bar>
          \<le> \<bar>foldl fadd (fadd s x) xs - (fadd s x + sum_list xs)\<bar> + \<bar>fadd s x - (s + x)\<bar>"
    by linarith
  also have "\<dots> \<le> of_nat (length xs) * e + e" using ih step by (rule add_mono)
  also have "\<dots> = of_nat (length (x # xs)) * e" by (simp add: algebra_simps)
  finally show ?case by (simp add: e_def add.assoc)
qed

lemma py_min_le_all: "y \<in> set xs \<Longrightarrow> py_min m xs \<le> y"
proof (induction xs arbitrary: m)
  case Nil
  then show ?case by simp
next
  case (Cons z zs)
  let ?m = "if z < m then z else m"
  have unf: "py_min m (z # zs) = py_min ?m zs" by (simp add: py_min_def)
  show ?case
  proof (cases "y = z")
    case True
    have "py_min ?m zs \<le> ?m" by (rule py_min_le)
    also have "?m \<le> z" by simp
    finally show ?thesis using True unf by simp
  next
    case False
    with Cons.prems have "y \<in> set zs" by simp
    then have "py_min ?m zs \<le> y" by (rule Cons.IH)
    then show ?thesis using unf by simp
  qed
qed

lemma py_max_ge_all: "y \<in> set xs \<Longrightarrow> y \<le> py_max m xs"
proof (induction xs arbitrary: m)
  case Nil
  then show ?case by simp
next
  case (Cons z zs)
  let ?m = "if m < z then z else m"
  have unf: "py_max m (z # zs) = py_max ?m zs" by (simp add: py_max_def)
  show ?case
  proof (cases "y = z")
    case True
    have "z \<le> ?m" by simp
    also have "?m \<le> py_max ?m zs" by (rule py_max_ge)
    finally show ?thesis using True unf by simp
  next
    case False
    with Cons.prems have "y \<in> set zs" by simp
    then have "y \<le> py_max ?m zs" by (rule Cons.IH)
    then show ?thesis using unf by simp
  qed
qed

lemma sum_list_between:
  fixes lo hi :: rat
  assumes "\<forall>x\<in>set xs. lo \<le> x \<and> x \<le> hi"
  shows "of_nat (length xs) * lo \<le> sum_list xs \<and> sum_list xs \<le> of_nat (length xs) * hi"
  using assms by (induction xs) (auto simp: algebra_simps)

lemma mean_tolerance:
  assumes "xs \<noteq> []" and "\<forall>x\<in>set xs. 0 \<le> x \<and> x \<le> 100" and "length xs < 2 ^ 46"
      and "\<forall>x\<in>set xs. lo \<le> x \<and> x \<le> hi"
  shows "\<exists>a. mean xs = Some a
           \<and> lo - (of_nat (length xs) + 1) / 2 ^ 46 \<le> a
           \<and> a \<le> hi + (of_nat (length xs) + 1) / 2 ^ 46"
proof -
  define n where "n = length xs"
  define N :: rat where "N = of_nat n"
  define e :: rat where "e = (100 * N + 1) / 2 ^ 53"
  have n1: "1 \<le> n" using assms(1) by (cases xs) (simp_all add: n_def)
  have N1: "1 \<le> N" using n1 by (simp add: N_def)
  have Npos: "0 < N" using N1 by simp
  have "100 * n < 100 * 2 ^ 46" using assms(3) by (simp add: n_def)
  also have "\<dots> < (2::nat) ^ 53" by simp
  finally have b: "100 * (0 + length xs) < 2 ^ 53" by (simp add: n_def)
  have z: "(0::rat) \<le> 0" "(0::rat) \<le> 100 * of_nat 0" by simp_all
  have s: "0 \<le> py_sum xs \<and> py_sum xs \<le> 100 * of_nat (0 + length xs)"
    unfolding py_sum_def using assms(2) z b by (rule foldl_fadd_range)
  have len: "0 + length xs \<le> n" by (simp add: n_def)
  from foldl_fadd_err [OF assms(2) z b len]
  have err: "\<bar>py_sum xs - sum_list xs\<bar> \<le> N * e"
    by (simp add: py_sum_def n_def N_def e_def)
  from sum_list_between [OF assms(4)]
  have sl: "N * lo \<le> sum_list xs" "sum_list xs \<le> N * hi" by (simp_all add: n_def N_def)
  have lo1: "N * (lo - e) \<le> py_sum xs" using err sl(1) by (simp add: algebra_simps abs_le_iff)
  have hi1: "py_sum xs \<le> N * (hi + e)" using err sl(2) by (simp add: algebra_simps abs_le_iff)
  define q where "q = py_sum xs / N"
  have qlo: "lo - e \<le> q" unfolding q_def using lo1 Npos
    by (simp add: pos_le_divide_eq mult.commute)
  have qhi: "q \<le> hi + e" unfolding q_def using hi1 Npos
    by (simp add: pos_divide_le_eq mult.commute)
  have q0: "0 \<le> q" unfolding q_def using s Npos by simp
  have q1: "q \<le> 100" unfolding q_def using s Npos
    by (simp add: n_def N_def pos_divide_le_eq)
  have "int n < 2 ^ 53" using b by (simp add: n_def)
  then have fn: "float_of_int (int n) = N"
    using float_of_int_exact [of "int n"] by (simp add: N_def)
  have m: "mean xs = Some (fl q)"
    using mean_defined [OF assms(1)] fn by (simp add: n_def q_def)
  have "\<bar>fl q - q\<bar> \<le> (q + 1) / 2 ^ 53" using q0 by (rule fl_err)
  also have "\<dots> \<le> 101 / 2 ^ 53" using q1 by (simp add: divide_right_mono)
  finally have ferr: "\<bar>fl q - q\<bar> \<le> 101 / 2 ^ 53" .
  have "e + 101 / 2 ^ 53 = (100 * N + 102) / 2 ^ 53" by (simp add: e_def add_divide_distrib)
  also have "\<dots> \<le> (128 * (N + 1)) / 2 ^ 53" using N1 by (intro divide_right_mono) simp_all
  also have "\<dots> = (N + 1) / 2 ^ 46" by simp
  finally have tol: "e + 101 / 2 ^ 53 \<le> (N + 1) / 2 ^ 46" .
  define c :: rat where "c = 101 / 2 ^ 53"
  define t :: rat where "t = (N + 1) / 2 ^ 46"
  have ferr': "\<bar>fl q - q\<bar> \<le> c" using ferr by (simp only: c_def)
  have tol': "e + c \<le> t" using tol by (simp only: c_def t_def)
  have "lo - t \<le> fl q" using qlo ferr' tol' by linarith
  moreover have "fl q \<le> hi + t" using qhi ferr' tol' by linarith
  ultimately have "lo - t \<le> fl q \<and> fl q \<le> hi + t" by (rule conjI)
  then show ?thesis using m by (simp only: t_def N_def n_def) simp
qed

lemma topic_aggregates_bounds:
  assumes "entry_ok S e" and "topic_aggregates (snd e) = Some a"
      and "\<forall>p\<in>S. is_double p \<and> 0 \<le> p \<and> p \<le> 100"
  shows "1 \<le> topic_total_quizzes a" and "worst_score a \<le> best_score a"
    and "topic_total_quizzes a \<le> 2 \<Longrightarrow>
           worst_score a \<le> topic_average_score a \<and> topic_average_score a \<le> best_score a"
    and "topic_total_quizzes a < 2 ^ 46 \<Longrightarrow>
           worst_score a - (of_nat (topic_total_quizzes a) + 1) / 2 ^ 46 \<le> topic_average_score a
           \<and> topic_average_score a \<le> best_score a + (of_nat (topic_total_quizzes a) + 1) / 2 ^ 46"
proof -
  obtain t scs n where e: "e = (t, scs, n)" by (cases e)
  with assms(1) obtain x xs where scs: "scs = x # xs" and n: "n = Suc (length xs)"
    and sub: "set (x # xs) \<subseteq> S"
    by (cases scs) (auto simp: entry_ok_def)
  from assms(2) obtain m where m: "mean (x # xs) = Some m"
    and a: "a = \<lparr>scores = x # xs, topic_total_quizzes = n, topic_average_score = m,
                 best_score = py_max x xs, worst_score = py_min x xs\<rparr>"
    by (auto simp: e scs split: option.splits)
  show "1 \<le> topic_total_quizzes a" by (simp add: a n)
  show "worst_score a \<le> best_score a"
    using py_min_le [of x xs] py_max_ge [of x xs] by (simp add: a)
  show "worst_score a \<le> topic_average_score a \<and> topic_average_score a \<le> best_score a"
    if "topic_total_quizzes a \<le> 2"
  proof (cases xs)
    case Nil
    have "is_double x" using sub assms(3) by simp
    from mean_one [OF this] m Nil show ?thesis by (simp add: a py_min_def py_max_def)
  next
    case (Cons y ys)
    with that have ys: "ys = []" by (simp add: a n)
    have dx: "is_double x" "0 \<le> x" and dy: "is_double y" "0 \<le> y"
      using sub assms(3) Cons by simp_all
    show ?thesis
    proof (cases "x \<le> y")
      case True
      from mean_two [OF dx(1) dy(1) dx(2) True] m Cons ys True show ?thesis
        by (auto simp: a py_min_def py_max_def)
    next
      case False
      then have "y \<le> x" by simp
      from mean_two [OF dy(1) dx(1) dy(2) this] m Cons ys False show ?thesis
        by (auto simp: a py_min_def py_max_def)
    qed
  qed
  show "worst_score a - (of_nat (topic_total_quizzes a) + 1) / 2 ^ 46 \<le> topic_average_score a
        \<and> topic_average_score a \<le> best_score a + (of_nat (topic_total_quizzes a) + 1) / 2 ^ 46"
    if "topic_total_quizzes a < 2 ^ 46"
  proof -
    have ne: "x # xs \<noteq> []" by simp
    have rng: "\<forall>y\<in>set (x # xs). 0 \<le> y \<and> y \<le> 100" using sub assms(3) by auto
    have len: "length (x # xs) < 2 ^ 46" using that by (simp add: a n)
    have "py_min x xs \<le> y \<and> y \<le> py_max x xs" if "y \<in> set (x # xs)" for y
    proof (cases "y = x")
      case True
      then show ?thesis using py_min_le [of x xs] py_max_ge [of x xs] by simp
    next
      case False
      with that have "y \<in> set xs" by simp
      then show ?thesis using py_min_le_all [of y xs x] py_max_ge_all [of y xs x] by simp
    qed
    then have btw: "\<forall>y\<in>set (x # xs). py_min x xs \<le> y \<and> y \<le> py_max x xs" by blast
    from mean_tolerance [OF ne rng len btw] m show ?thesis by (simp add: a n)
  qed
qed

text \<open>
  Claim C10, as the code has it.  The claim says that in every entry of
  \<open>get_topic_performance\<close> the average lies between the worst and the best score.  The
  average is a rounded quotient of a rounded sum, and from three scores on the rounding
  can push it past the best score (or below the worst): three quizzes of a topic, each
  with 5 of 9 answers right, have the percentage \<open>55.55555555555556\<close> and the average
  \<open>55.555555555555564\<close>.
\<close>

theorem topic_average_above_best:
  "quiz_percentage 5 9 = Some (3909374676536889 / 70368744177664)
   \<and> get_topic_performance
       (Inr [\<lparr>topic = Some ''Python'', score = Some 5, total_questions = Some 9,
              percentage = Some (3909374676536889 / 70368744177664),
              completed_at = Some \<lparr>ts_date = 739558, ts_nanos = 0\<rparr>\<rparr>,
             \<lparr>topic = Some ''Python'', score = Some 5, total_questions = Some 9,
              percentage = Some (3909374676536889 / 70368744177664),
              completed_at = Some \<lparr>ts_date = 739557, ts_nanos = 0\<rparr>\<rparr>,
             \<lparr>topic = Some ''Python'', score = Some 5, total_questions = Some 9,
              percentage = Some (3909374676536889 / 70368744177664),
              completed_at = Some \<lparr>ts_date = 739556, ts_nanos = 0\<rparr>\<rparr>])
     = [(''Python'',
         \<lparr>scores = [3909374676536889 / 70368744177664, 3909374676536889 / 70368744177664,
                    3909374676536889 / 70368744177664],
          topic_total_quizzes = 3,
          topic_average_score = 7818749353073779 / 140737488355328,
          best_score = 3909374676536889 / 70368744177664,
          worst_score = 3909374676536889 / 70368744177664\<rparr>)]
   \<and> (3909374676536889 / 70368744177664 :: rat) < 7818749353073779 / 140737488355328"
  by code_simp

text \<open>
  Claim C10, amended.  For quiz records whose percentages are floats between 0 and 100,
  every entry of \<open>get_topic_performance\<close> counts at least one quiz and its worst score is
  at most its best score.  The average of a topic with one or two quizzes lies between
  the worst and the best score; with \<open>n\<close> quizzes, for every \<open>n\<close> below \<open>2 ^ 46\<close>, it lies
  between the worst score minus \<open>(n + 1) / 2 ^ 46\<close> and the best score plus
  \<open>(n + 1) / 2 ^ 46\<close>, where \<open>1 / 2 ^ 46\<close> is the distance between neighbouring floats
  from 64 to 128.
\<close>

theorem topic_performance_bounds:
  assumes "\<forall>q\<in>set docs. is_double (get_percentage q)
             \<and> 0 \<le> get_percentage q \<and> get_percentage q \<le> 100"
      and "(t, a) \<in> set (get_topic_performance (Inr docs))"
  shows "1 \<le> topic_total_quizzes a \<and> worst_score a \<le> best_score a
       \<and> (topic_total_quizzes a \<le> 2 \<longrightarrow>
            worst_score a \<le> topic_average_score a \<and> topic_average_score a \<le> best_score a)
       \<and> (topic_total_quizzes a < 2 ^ 46 \<longrightarrow>
            worst_score a - (of_nat (topic_total_quizzes a) + 1) / 2 ^ 46
              \<le> topic_average_score a
            \<and> topic_average_score a
              \<le> best_score a + (of_nat (topic_total_quizzes a) + 1) / 2 ^ 46)"
proof -
  obtain r where r: "calculate_averages (topic_data docs) = Some r"
    using calculate_averages_defined [of "topic_data docs"] by blast
  with assms(2) have "(t, a) \<in> set r" by (simp add: get_topic_performance_def)
  from calculate_averages_entries [OF r this] obtain e
    where e: "(t, e) \<in> set (topic_data docs)" and ag: "topic_aggregates e = Some a" by blast
  have ok: "entry_ok (get_percentage ` set docs) (t, e)" using topic_data_ok e by blast
  have S: "\<forall>p\<in>get_percentage ` set docs. is_double p \<and> 0 \<le> p \<and> p \<le> 100"
    using assms(1) by auto
  have ag': "topic_aggregates (snd (t, e)) = Some a" using ag by simp
  note b = topic_aggregates_bounds [OF ok ag' S]
  from b(1) b(2) b(3) b(4) show ?thesis by blast
qed

lemma topic_performance_example:
  "get_topic_performance
     (Inr [\<lparr>topic = Some ''SQL'', score = Some 1, total_questions = Some 3,
            percentage = Some (2345624805922133 / 70368744177664),
            completed_at = Some \<lparr>ts_date = 739557, ts_nanos = 0\<rparr>\<rparr>,
           \<lparr>topic = Some ''SQL'', score = Some 4, total_questions = Some 5,
            percentage = Some 80,
            completed_at = Some \<lparr>ts_date = 739558, ts_nanos = 0\<rparr>\<rparr>])
   = [(''SQL'',
       \<lparr>scores = [2345624805922133 / 70368744177664, 80], topic_total_quizzes = 2,
        topic_average_score = 7975124340135253 / 140737488355328,
        best_score = 80, worst_score = 2345624805922133 / 70368744177664\<rparr>)]"
  "is_double (2345624805922133 / 70368744177664)" "is_double 80"
  "get_topic_performance
     (Inr [\<lparr>topic = Some ''Go'', score = Some 5, total_questions = Some 9,
            percentage = Some (3909374676536889 / 70368744177664),
            completed_at = Some \<lparr>ts_date = 739558, ts_nanos = 0\<rparr>\<rparr>,
           \<lparr>topic = Some ''Go'', score = Some 5, total_questions = Some 9,
            percentage = Some (3909374676536889 / 70368744177664),
            completed_at = Some \<lparr>ts_date = 739557, ts_nanos = 0\<rparr>\<rparr>,
           \<lparr>topic = Some ''Go'', score = Some 5, total_questions = Some 9,
            percentage = Some (3909374676536889 / 70368744177664),
            completed_at = Some \<lparr>ts_date = 739556, ts_nanos = 0\<rparr>\<rparr>])
   = [(''Go'',
       \<lparr>scores = [3909374676536889 / 70368744177664, 3909374676536889 / 70368744177664,
                  3909374676536889 / 70368744177664],
        topic_total_quizzes = 3,
        topic_average_score = 7818749353073779 / 140737488355328,
        best_score = 3909374676536889 / 70368744177664,
        worst_score = 3909374676536889 / 70368744177664\<rparr>)]"
  "is_double (3909374676536889 / 70368744177664)"
  by code_simp+

theorem topic_performance_bounds_witness:
  "is_double (2345624805922133 / 70368744177664) \<and> is_double 80
   \<and> (''SQL'',
       \<lparr>scores = [2345624805922133 / 70368744177664, 80], topic_total_quizzes = 2,
        topic_average_score = 7975124340135253 / 140737488355328,
        best_score = 80, worst_score = 2345624805922133 / 70368744177664\<rparr>)
     \<in> set (get_topic_performance
         (Inr [\<lparr>topic = Some ''SQL'', score = Some 1, total_questions = Some 3,
                percentage = Some (2345624805922133 / 70368744177664),
                completed_at = Some \<lparr>ts_date = 739557, ts_nanos = 0\<rparr>\<rparr>,
               \<lparr>topic = Some ''SQL'', score = Some 4, total_questions = Some 5,
                percentage = Some 80,
                completed_at = Some \<lparr>ts_date = 739558, ts_nanos = 0\<rparr>\<rparr>]))
   \<and> (2345624805922133 / 70368744177664 :: rat) \<le> 7975124340135253 / 140737488355328
   \<and> (7975124340135253 / 140737488355328 :: rat) \<le> 80
   \<and> is_double (3909374676536889 / 70368744177664)
   \<and> (''Go'',
       \<lparr>scores = [3909374676536889 / 70368744177664, 3909374676536889 / 70368744177664,
                  3909374676536889 / 70368744177664],
        topic_total_quizzes = 3,
        topic_average_score = 7818749353073779 / 140737488355328,
        best_score = 3909374676536889 / 70368744177664,
        worst_score = 3909374676536889 / 70368744177664\<rparr>)
     \<in> set (get_topic_performance
         (Inr [\<lparr>topic = Some ''Go'', score = Some 5, total_questions = Some 9,
                percentage = Some (3909374676536889 / 70368744177664),
                completed_at = Some \<lparr>ts_date = 739558, ts_nanos = 0\<rparr>\<rparr>,
               \<lparr>topic = Some ''Go'', score = Some 5, total_questions = Some 9,
                percentage = Some (3909374676536889 / 70368744177664),
                completed_at = Some \<lparr>ts_date = 739557, ts_nanos = 0\<rparr>\<rparr>,
               \<lparr>topic = Some ''Go'', score = Some 5, total_questions = Some 9,
                percentage = Some (3909374676536889 / 70368744177664),
                completed_at = Some \<lparr>ts_date = 739556, ts_nanos = 0\<rparr>\<rparr>]))
   \<and> (3 :: nat) < 2 ^ 46
   \<and> (3909374676536889 / 70368744177664 - (of_nat 3 + 1) / 2 ^ 46 :: rat)
       \<le> 7818749353073779 / 140737488355328
   \<and> (7818749353073779 / 140737488355328 :: rat)
       \<le> 3909374676536889 / 70368744177664 + (of_nat 3 + 1) / 2 ^ 46"
proof -
  let ?docs = "[\<lparr>topic = Some ''SQL'', score = Some 1, total_questions = Some 3,
               percentage = Some (2345624805922133 / 70368744177664),
               completed_at = Some \<lparr>ts_date = 739557, ts_nanos = 0\<rparr>\<rparr>,
              \<lparr>topic = Some ''SQL'', score = Some 4, total_questions = Some 5,
               percentage = Some 80,
               completed_at = Some \<lparr>ts_date = 739558, ts_nanos = 0\<rparr>\<rparr>]"
  let ?a = "\<lparr>scores = [2345624805922133 / 70368744177664, 80], topic_total_quizzes = 2,
        topic_average_score = 7975124340135253 / 140737488355328,
        best_score = 80, worst_score = 2345624805922133 / 70368744177664\<rparr>"
  let ?docs3 = "[\<lparr>topic = Some ''Go'', score = Some 5, total_questions = Some 9,
                percentage = Some (3909374676536889 / 70368744177664),
                completed_at = Some \<lparr>ts_date = 739558, ts_nanos = 0\<rparr>\<rparr>,
               \<lparr>topic = Some ''Go'', score = Some 5, total_questions = Some 9,
                percentage = Some (3909374676536889 / 70368744177664),
                completed_at = Some \<lparr>ts_date = 739557, ts_nanos = 0\<rparr>\<rparr>,
               \<lparr>topic = Some ''Go'', score = Some 5, total_questions = Some 9,
                percentage = Some (3909374676536889 / 70368744177664),
                completed_at = Some \<lparr>ts_date = 739556, ts_nanos = 0\<rparr>\<rparr>]"
  let ?a3 = "\<lparr>scores = [3909374676536889 / 70368744177664, 3909374676536889 / 70368744177664,
                  3909374676536889 / 70368744177664],
        topic_total_quizzes = 3,
        topic_average_score = 7818749353073779 / 140737488355328,
        best_score = 3909374676536889 / 70368744177664,
        worst_score = 3909374676536889 / 70368744177664\<rparr>"
  have h1: "\<forall>q\<in>set ?docs. is_double (get_percentage q)
              \<and> 0 \<le> get_percentage q \<and> get_percentage q \<le> 100"
    using topic_performance_example(2,3) by (simp add: get_percentage_def)
  have h2: "(''SQL'', ?a) \<in> set (get_topic_performance (Inr ?docs))"
    by (simp only: topic_performance_example(1)) simp
  have h3: "\<forall>q\<in>set ?docs3. is_double (get_percentage q)
              \<and> 0 \<le> get_percentage q \<and> get_percentage q \<le> 100"
    using topic_performance_example(5) by (simp add: get_percentage_def)
  have h4: "(''Go'', ?a3) \<in> set (get_topic_performance (Inr ?docs3))"
    by (simp only: topic_performance_example(4)) simp
  have two: "worst_score ?a \<le> topic_average_score ?a \<and> topic_average_score ?a \<le> best_score ?a"
    using topic_performance_bounds [OF h1 h2] by simp
  have three: "worst_score ?a3 - (of_nat (topic_total_quizzes ?a3) + 1) / 2 ^ 46
                 \<le> topic_average_score ?a3
             \<and> topic_average_score ?a3
                 \<le> best_score ?a3 + (of_nat (topic_total_quizzes ?a3) + 1) / 2 ^ 46"
    using topic_performance_bounds [OF h3 h4] by simp
  from topic_performance_example(2,3,5) h2 h4 two three show ?thesis by simp
qed

end
